theory Spec2Isabelle
  imports Main "HOL-Library.AList" "HOL-Library.Word"
begin

section \<open>Python values and exceptions\<close>

text \<open>
  A Python \<^verbatim>\<open>bytes\<close> object is a list of octets. The page source handed back by the
  browser is a Python \<^verbatim>\<open>str\<close>, modelled as its list of Unicode code points (every code
  point of a \<^verbatim>\<open>str\<close> is below \<open>0x110000\<close>). URLs, cookie names, scripts and setting
  values are ASCII texts, modelled as \<open>string\<close>.
\<close>

type_synonym bytes = "8 word list"
type_synonym unicode = "nat list"

datatype pyval =
    PNone
  | PBool bool
  | PInt int
  | PStr string
  | PList "pyval list"
  | PDict "(string \<times> pyval) list"

type_synonym pydict = "(string \<times> pyval) list"

text \<open>Exceptions of the browser-automation library, as far as the middleware meets them.\<close>

datatype driver_error = TimeoutException | WebDriverException string

datatype error =
    NotConfigured string
  | ModuleNotFoundError string
  | TypeError
  | ValueError
  | AttributeError
  | UnicodeEncodeError
  | DriverError driver_error

text \<open>Truthiness of the values tested by \<^verbatim>\<open>if x:\<close> in the source.\<close>

definition truthy_str :: "string option \<Rightarrow> bool" where
  "truthy_str s = (case s of None \<Rightarrow> False | Some t \<Rightarrow> t \<noteq> [])"

definition truthy_dict :: "pydict option \<Rightarrow> bool" where
  "truthy_dict d = (case d of None \<Rightarrow> False | Some kvs \<Rightarrow> kvs \<noteq> [])"

text \<open>\<^verbatim>\<open>str.lower\<close>, \<^verbatim>\<open>str.capitalize\<close> and \<^verbatim>\<open>str.startswith\<close> on ASCII text.\<close>

definition lower_char :: "char \<Rightarrow> char" where
  "lower_char c = (let n = (of_char c :: nat) in if 65 \<le> n \<and> n \<le> 90 then char_of (n + 32) else c)"

definition upper_char :: "char \<Rightarrow> char" where
  "upper_char c = (let n = (of_char c :: nat) in if 97 \<le> n \<and> n \<le> 122 then char_of (n - 32) else c)"

definition lower :: "string \<Rightarrow> string" where
  "lower s = map lower_char s"

definition capitalize :: "string \<Rightarrow> string" where
  "capitalize s = (case s of [] \<Rightarrow> [] | c # cs \<Rightarrow> upper_char c # map lower_char cs)"

definition startswith :: "string \<Rightarrow> string \<Rightarrow> bool" where
  "startswith s p = (take (length p) s = p)"

text \<open>
  \<^verbatim>\<open>str.encode(s)\<close>: strict UTF-8. A lone surrogate cannot be encoded and raises
  \<^verbatim>\<open>UnicodeEncodeError\<close>.
\<close>

definition is_surrogate :: "nat \<Rightarrow> bool" where
  "is_surrogate cp = (0xD800 \<le> cp \<and> cp \<le> 0xDFFF)"

definition utf8_char :: "nat \<Rightarrow> bytes" where
  "utf8_char cp =
     (if cp < 0x80 then [of_nat cp]
      else if cp < 0x800 then [of_nat (0xC0 + cp div 64), of_nat (0x80 + cp mod 64)]
      else if cp < 0x10000 then
        [of_nat (0xE0 + cp div 4096), of_nat (0x80 + cp div 64 mod 64), of_nat (0x80 + cp mod 64)]
      else
        [of_nat (0xF0 + cp div 262144), of_nat (0x80 + cp div 4096 mod 64),
         of_nat (0x80 + cp div 64 mod 64), of_nat (0x80 + cp mod 64)])"

fun str_encode :: "unicode \<Rightarrow> error + bytes" where
  "str_encode [] = Inr []"
| "str_encode (cp # s) =
     (if is_surrogate cp then Inl UnicodeEncodeError
      else case str_encode s of
             Inl e \<Rightarrow> Inl e
           | Inr bs \<Rightarrow> Inr (utf8_char cp @ bs))"

section \<open>The browser session\<close>

text \<open>
  The selenium driver is an external object. The middleware only ever calls the methods
  below on it; a session is modelled by the list of calls made on it so far, oldest first
  (a call that raised is listed too).
\<close>

type_synonym condition = string

datatype command =
    Get string
  | AddCookie string string
  | WaitUntil condition int
  | GetScreenshotAsPng
  | ExecuteScript string
  | PageSource
  | CurrentUrl
  | Quit

text \<open>
  What the browser answers is not decided by this repository, so it is a parameter: for
  the calls made so far, \<open>raises\<close> tells whether the next call raises (for
  \<open>WaitUntil c t\<close>: \<open>TimeoutException\<close> when condition \<open>c\<close> did not become true within
  \<open>t\<close> seconds), and \<open>png\<close>, \<open>page\<close> and \<open>location\<close> give the screenshot, the page source
  and the current URL read at that point.
\<close>

record browser =
  raises :: "command list \<Rightarrow> command \<Rightarrow> driver_error option"
  png :: "command list \<Rightarrow> bytes"
  page :: "command list \<Rightarrow> unicode"
  location :: "command list \<Rightarrow> string"

text \<open>The option object of a driver family, as the constructor fills it.\<close>

record options =
  binary_location :: "string option"
  arguments :: "string list"
  capabilities :: pydict

record driver_kwargs =
  executable_path :: string
  options_keyword :: string
  driver_options :: options
  seleniumwire_options :: "pydict option"

text \<open>
  Which driver class was instantiated, and with what: the standard class
  \<^verbatim>\<open>selenium.webdriver.<name>.webdriver.WebDriver\<close>, the class of that (capitalized)
  name in \<^verbatim>\<open>seleniumwire.webdriver\<close>, or \<^verbatim>\<open>selenium.webdriver.Remote\<close> with a command
  executor and the capabilities computed from the options.
\<close>

datatype desired_capabilities = ToCapabilities options

datatype driver_ctor =
    StandardDriver string driver_kwargs
  | WireDriver string driver_kwargs
  | RemoteDriver string desired_capabilities

record webdriver =
  built :: driver_ctor
  calls :: "command list"

type_synonym 'a outcome = "(error + 'a) \<times> webdriver"

definition call :: "browser \<Rightarrow> command \<Rightarrow> webdriver \<Rightarrow> unit outcome" where
  "call b c d =
     ((case raises b (calls d) c of
         Some e \<Rightarrow> Inl (DriverError e)
       | None \<Rightarrow> Inr ()),
      d\<lparr>calls := calls d @ [c]\<rparr>)"

definition driver_get :: "browser \<Rightarrow> string \<Rightarrow> webdriver \<Rightarrow> unit outcome" where
  "driver_get b u d = call b (Get u) d"

definition add_cookie :: "browser \<Rightarrow> string \<Rightarrow> string \<Rightarrow> webdriver \<Rightarrow> unit outcome" where
  "add_cookie b n v d = call b (AddCookie n v) d"

definition get_screenshot_as_png :: "browser \<Rightarrow> webdriver \<Rightarrow> bytes outcome" where
  "get_screenshot_as_png b d =
     (case call b GetScreenshotAsPng d of
        (Inl e, d') \<Rightarrow> (Inl e, d')
      | (Inr _, d') \<Rightarrow> (Inr (png b (calls d)), d'))"

definition execute_script :: "browser \<Rightarrow> string \<Rightarrow> webdriver \<Rightarrow> unit outcome" where
  "execute_script b s d = call b (ExecuteScript s) d"

definition page_source :: "browser \<Rightarrow> webdriver \<Rightarrow> unicode outcome" where
  "page_source b d =
     (case call b PageSource d of
        (Inl e, d') \<Rightarrow> (Inl e, d')
      | (Inr _, d') \<Rightarrow> (Inr (page b (calls d)), d'))"

definition current_url :: "browser \<Rightarrow> webdriver \<Rightarrow> string outcome" where
  "current_url b d =
     (case call b CurrentUrl d of
        (Inl e, d') \<Rightarrow> (Inl e, d')
      | (Inr _, d') \<Rightarrow> (Inr (location b (calls d)), d'))"

definition quit :: "browser \<Rightarrow> webdriver \<Rightarrow> unit outcome" where
  "quit b d = call b Quit d"

text \<open>
  \<^verbatim>\<open>WebDriverWait(driver, timeout).until(method)\<close>: a timeout of \<^verbatim>\<open>None\<close> is a
  \<^verbatim>\<open>TypeError\<close> before the condition is polled at all.
\<close>

definition web_driver_wait_until ::
  "browser \<Rightarrow> int option \<Rightarrow> condition \<Rightarrow> webdriver \<Rightarrow> unit outcome" where
  "web_driver_wait_until b timeout method d =
     (case timeout of
        None \<Rightarrow> (Inl TypeError, d)
      | Some t \<Rightarrow> call b (WaitUntil method t) d)"

section \<open>Requests and responses\<close>

datatype meta_value = MetaBytes bytes | MetaDriver | MetaOther pyval

text \<open>
  Modelled from the spec: the class \<^verbatim>\<open>SeleniumRequest\<close> of \<^verbatim>\<open>scrapy_selenium/request.py\<close>,
  which the middleware imports, is the crawl request extended with the optional fields
  wait condition, wait timeout, screenshot flag and script. A request is an instance of
  it exactly when \<open>selenium\<close> is not \<open>None\<close>. \<open>cookies\<close> and \<open>meta\<close> are dictionaries in
  insertion order; \<open>MetaDriver\<close> is the reference to the middleware's one driver.
\<close>

record selenium_fields =
  wait_time :: "int option"
  wait_until :: "condition option"
  screenshot :: bool
  script :: "string option"

record request =
  url :: string
  cookies :: "(string \<times> string) list"
  meta :: "(string \<times> meta_value) list"
  selenium :: "selenium_fields option"

datatype html_response =
  HtmlResponse (response_url: string) (body: bytes) (encoding: string) (response_request: request)

section \<open>The middleware\<close>

text \<open>
  \<open>driver\<close> is \<open>None\<close> when the constructor assigned no \<^verbatim>\<open>self.driver\<close>; reading the
  attribute then raises \<^verbatim>\<open>AttributeError\<close>.
\<close>

record middleware =
  driver :: "webdriver option"

text \<open>Sequencing of steps that may raise, on the state \<open>(driver, request)\<close>.\<close>

type_synonym 'a step = "webdriver \<times> request \<Rightarrow> (error + 'a) \<times> webdriver \<times> request"

definition seq :: "'a step \<Rightarrow> ('a \<Rightarrow> 'b step) \<Rightarrow> 'b step" where
  "seq m k s = (case m s of (Inl e, s') \<Rightarrow> (Inl e, s') | (Inr x, s') \<Rightarrow> k x s')"

definition skip :: "unit step" where
  "skip s = (Inr (), s)"

definition on_driver :: "(webdriver \<Rightarrow> 'a outcome) \<Rightarrow> 'a step" where
  "on_driver f s = (case s of (d, r) \<Rightarrow> (case f d of (res, d') \<Rightarrow> (res, d', r)))"

definition raise_or_return :: "error + 'a \<Rightarrow> 'a step" where
  "raise_or_return x s = (x, s)"

definition set_meta :: "string \<Rightarrow> meta_value \<Rightarrow> unit step" where
  "set_meta k v s = (case s of (d, r) \<Rightarrow> (Inr (), d, r\<lparr>meta := AList.update k v (meta r)\<rparr>))"

fun add_cookies :: "browser \<Rightarrow> (string \<times> string) list \<Rightarrow> webdriver \<Rightarrow> unit outcome" where
  "add_cookies b [] d = (Inr (), d)"
| "add_cookies b ((cookie_name, cookie_value) # cs) d =
     (case add_cookie b cookie_name cookie_value d of
        (Inl e, d') \<Rightarrow> (Inl e, d')
      | (Inr _, d') \<Rightarrow> add_cookies b cs d')"

text \<open>Lines 144 to 165 of the source: what follows the navigation and the cookies.\<close>

definition finish_request :: "browser \<Rightarrow> selenium_fields \<Rightarrow> html_response option step" where
  "finish_request b f =
     seq (case wait_until f of
            Some method \<Rightarrow> on_driver (web_driver_wait_until b (wait_time f) method)
          | None \<Rightarrow> skip) (\<lambda>_.
     seq (if screenshot f
          then seq (on_driver (get_screenshot_as_png b)) (\<lambda>shot. set_meta ''screenshot'' (MetaBytes shot))
          else skip) (\<lambda>_.
     seq (case script f of
            Some s \<Rightarrow> if s \<noteq> [] then on_driver (execute_script b s) else skip
          | None \<Rightarrow> skip) (\<lambda>_.
     seq (on_driver (page_source b)) (\<lambda>src.
     seq (raise_or_return (str_encode src)) (\<lambda>body.
     seq (set_meta ''driver'' MetaDriver) (\<lambda>_.
     seq (on_driver (current_url b)) (\<lambda>u s.
       (Inr (Some (HtmlResponse u body ''utf-8'' (snd s))), s))))))))"

text \<open>Lines 135 to 165: the handling of a request that is a \<^verbatim>\<open>SeleniumRequest\<close>.\<close>

definition selenium_steps ::
  "browser \<Rightarrow> request \<Rightarrow> selenium_fields \<Rightarrow> html_response option step" where
  "selenium_steps b request f =
     seq (on_driver (driver_get b (url request))) (\<lambda>_.
     seq (on_driver (add_cookies b (cookies request))) (\<lambda>_.
     finish_request b f))"

text \<open>
  \<^verbatim>\<open>process_request(self, request, spider)\<close>; the spider is not used. The result is what
  the call returns or raises, with the middleware and the request as the call leaves them.
\<close>

definition process_request ::
  "browser \<Rightarrow> middleware \<Rightarrow> request \<Rightarrow> (error + html_response option) \<times> middleware \<times> request" where
  "process_request b self request =
     (case selenium request of
        None \<Rightarrow> (Inr None, self, request)
      | Some f \<Rightarrow>
          (case driver self of
             None \<Rightarrow> (Inl AttributeError, self, request)
           | Some d \<Rightarrow>
               (case selenium_steps b request f (d, request) of
                  (res, d', request') \<Rightarrow> (res, self\<lparr>driver := Some d'\<rparr>, request'))))"

definition spider_closed :: "browser \<Rightarrow> middleware \<Rightarrow> (error + unit) \<times> middleware" where
  "spider_closed b self =
     (case driver self of
        None \<Rightarrow> (Inl AttributeError, self)
      | Some d \<Rightarrow> (case quit b d of (res, d') \<Rightarrow> (res, self\<lparr>driver := Some d'\<rparr>)))"

section \<open>Construction\<close>

text \<open>
  The two methods the constructor calls on the options object of a driver family, and
  the two ways such a call raises: the method refuses its argument (\<^verbatim>\<open>ValueError\<close>, as
  the options of chrome do for an empty argument), or the options class of the family has
  no such method (\<^verbatim>\<open>AttributeError\<close>).
\<close>

datatype options_call = AddArgument string | SetCapability string pyval

datatype refusal = RaisesValueError | RaisesAttributeError

fun raised :: "refusal \<Rightarrow> error" where
  "raised RaisesValueError = ValueError"
| "raised RaisesAttributeError = AttributeError"

text \<open>
  What the constructor needs from its surroundings: which modules \<^verbatim>\<open>import_module\<close>
  finds, which class names \<^verbatim>\<open>seleniumwire.webdriver\<close> has, whether a method call on the
  options object of the driver family of a given name raises, and whether instantiating a
  driver class raises.
\<close>

record env =
  importable :: "string \<Rightarrow> bool"
  wire_class :: "string \<Rightarrow> bool"
  options_raises :: "string \<Rightarrow> options_call \<Rightarrow> refusal option"
  launch :: "driver_ctor \<Rightarrow> driver_error option"

definition import_module :: "env \<Rightarrow> string \<Rightarrow> error + unit" where
  "import_module e name = (if importable e name then Inr () else Inl (ModuleNotFoundError name))"

definition construct :: "env \<Rightarrow> driver_ctor \<Rightarrow> error + webdriver" where
  "construct e c =
     (case launch e c of
        Some err \<Rightarrow> Inl (DriverError err)
      | None \<Rightarrow> Inr \<lparr>built = c, calls = []\<rparr>)"

definition add_argument :: "env \<Rightarrow> string \<Rightarrow> string \<Rightarrow> options \<Rightarrow> error + options" where
  "add_argument e driver_name argument opts =
     (case options_raises e driver_name (AddArgument argument) of
        Some r \<Rightarrow> Inl (raised r)
      | None \<Rightarrow> Inr (opts\<lparr>arguments := arguments opts @ [argument]\<rparr>))"

definition set_capability :: "env \<Rightarrow> string \<Rightarrow> string \<Rightarrow> pyval \<Rightarrow> options \<Rightarrow> error + options" where
  "set_capability e driver_name k v opts =
     (case options_raises e driver_name (SetCapability k v) of
        Some r \<Rightarrow> Inl (raised r)
      | None \<Rightarrow> Inr (opts\<lparr>capabilities := AList.update k v (capabilities opts)\<rparr>))"

text \<open>
  The loop over \<^verbatim>\<open>driver_arguments\<close> (lines 58 to 62 of the source); it ends at the first
  argument the options object refuses.
\<close>

fun add_arguments ::
  "env \<Rightarrow> string \<Rightarrow> string option \<Rightarrow> string list \<Rightarrow> options \<Rightarrow> error + options" where
  "add_arguments e driver_name driver_user_agent [] opts = Inr opts"
| "add_arguments e driver_name driver_user_agent (argument # rest) opts =
     (case add_argument e driver_name
             (if startswith (lower argument) ''user-agent''
              then (case driver_user_agent of
                      Some ua \<Rightarrow> if ua \<noteq> [] then ua else argument
                    | None \<Rightarrow> argument)
              else argument)
             opts of
        Inl err \<Rightarrow> Inl err
      | Inr opts' \<Rightarrow> add_arguments e driver_name driver_user_agent rest opts')"

fun set_capabilities :: "env \<Rightarrow> string \<Rightarrow> pydict \<Rightarrow> options \<Rightarrow> error + options" where
  "set_capabilities e driver_name [] opts = Inr opts"
| "set_capabilities e driver_name ((k, v) # rest) opts =
     (case set_capability e driver_name k v opts of
        Inl err \<Rightarrow> Inl err
      | Inr opts' \<Rightarrow> set_capabilities e driver_name rest opts')"

definition with_binary_location :: "string option \<Rightarrow> options \<Rightarrow> options" where
  "with_binary_location browser_executable_path opts =
     (if truthy_str browser_executable_path
      then opts\<lparr>binary_location := browser_executable_path\<rparr> else opts)"

definition with_capabilities :: "env \<Rightarrow> string \<Rightarrow> pydict option \<Rightarrow> options \<Rightarrow> error + options" where
  "with_capabilities e driver_name desired_capabilities_arguments opts =
     (if truthy_dict desired_capabilities_arguments
      then (case desired_capabilities_arguments of
              Some caps \<Rightarrow> set_capabilities e driver_name caps opts
            | None \<Rightarrow> Inr opts)
      else Inr opts)"

text \<open>
  The parameters \<^verbatim>\<open>driver_use_wire\<close> and the three after it have defaults in the
  signature; the only caller in the repository, \<open>from_crawler\<close>, passes all of them.
  The \<^verbatim>\<open>print\<close> of the local branch writes to the standard output and is left out.
\<close>

definition driver_use_wire_default :: pyval where
  "driver_use_wire_default = PBool True"

text \<open>Lines 53 to 67: the options object, filled from the configuration.\<close>

definition configured_options ::
  "env \<Rightarrow> string \<Rightarrow> string option \<Rightarrow> string list \<Rightarrow> pydict option \<Rightarrow> string option \<Rightarrow>
   error + options" where
  "configured_options e driver_name browser_executable_path args desired_capabilities_arguments
        driver_user_agent =
     (case add_arguments e driver_name driver_user_agent args
             (with_binary_location browser_executable_path
                \<lparr>binary_location = None, arguments = [], capabilities = []\<rparr>) of
        Inl err \<Rightarrow> Inl err
      | Inr opts \<Rightarrow> with_capabilities e driver_name desired_capabilities_arguments opts)"

text \<open>Lines 70 to 83: the locally installed driver.\<close>

definition local_driver ::
  "env \<Rightarrow> string \<Rightarrow> string \<Rightarrow> options \<Rightarrow> pyval \<Rightarrow> pydict option \<Rightarrow> error + webdriver" where
  "local_driver e driver_name driver_executable_path opts driver_use_wire driver_wire_options =
     (let driver_kwargs = \<lparr>executable_path = driver_executable_path,
                           options_keyword = driver_name @ ''_options'',
                           driver_options = opts,
                           seleniumwire_options = None\<rparr>
      in
      (if driver_use_wire = PBool True then
         (case import_module e ''seleniumwire.webdriver'' of
            Inl err \<Rightarrow> Inl err
          | Inr _ \<Rightarrow>
              (if wire_class e (capitalize driver_name) then
                 construct e
                   (WireDriver (capitalize driver_name)
                      (if truthy_dict driver_wire_options
                       then driver_kwargs\<lparr>seleniumwire_options := driver_wire_options\<rparr>
                       else driver_kwargs))
               else Inl AttributeError))
       else construct e (StandardDriver driver_name driver_kwargs)))"

text \<open>Lines 87 to 91: the remote driver.\<close>

definition remote_driver :: "env \<Rightarrow> string \<Rightarrow> options \<Rightarrow> error + webdriver" where
  "remote_driver e command_executor opts =
     construct e (RemoteDriver command_executor (ToCapabilities opts))"

definition init ::
  "env \<Rightarrow> string \<Rightarrow> string option \<Rightarrow> string option \<Rightarrow> string option \<Rightarrow> string list option \<Rightarrow>
   pydict option \<Rightarrow> pyval \<Rightarrow> pydict option \<Rightarrow> string option \<Rightarrow> error + middleware" where
  "init e driver_name driver_executable_path browser_executable_path command_executor
        driver_arguments desired_capabilities_arguments driver_use_wire driver_wire_options
        driver_user_agent =
     (case import_module e (''selenium.webdriver.'' @ driver_name @ ''.webdriver'') of
        Inl err \<Rightarrow> Inl err
      | Inr _ \<Rightarrow>
     (case import_module e (''selenium.webdriver.'' @ driver_name @ ''.options'') of
        Inl err \<Rightarrow> Inl err
      | Inr _ \<Rightarrow>
     (case driver_arguments of
        None \<Rightarrow> Inl TypeError
      | Some args \<Rightarrow>
     (case configured_options e driver_name browser_executable_path args
             desired_capabilities_arguments driver_user_agent of
        Inl err \<Rightarrow> Inl err
      | Inr opts \<Rightarrow>
     (case driver_executable_path of
        Some path \<Rightarrow>
          (case local_driver e driver_name path opts driver_use_wire driver_wire_options of
             Inl err \<Rightarrow> Inl err
           | Inr d \<Rightarrow> Inr \<lparr>driver = Some d\<rparr>)
      | None \<Rightarrow>
          (case command_executor of
             Some ce \<Rightarrow>
               (case remote_driver e ce opts of
                  Inl err \<Rightarrow> Inl err
                | Inr d \<Rightarrow> Inr \<lparr>driver = Some d\<rparr>)
           | None \<Rightarrow> Inr \<lparr>driver = None\<rparr>))))))"

text \<open>
  The crawler: its settings and the receivers connected to its signals. A field of
  \<open>settings\<close> is the value \<^verbatim>\<open>crawler.settings.get\<close> returns for the key of that name,
  \<open>None\<close> (\<open>PNone\<close>) when the key is absent.
\<close>

record settings =
  SELENIUM_DRIVER_NAME :: "string option"
  SELENIUM_DRIVER_EXECUTABLE_PATH :: "string option"
  SELENIUM_BROWSER_EXECUTABLE_PATH :: "string option"
  SELENIUM_COMMAND_EXECUTOR :: "string option"
  SELENIUM_DRIVER_ARGUMENTS :: "string list option"
  SELENIUM_DRIVER_DESIRED_CAPABILITIES :: "pydict option"
  SELENIUM_DRIVER_USE_WIRE :: pyval
  SELENIUM_DRIVER_WIRE_OPTIONS :: "pydict option"
  SELENIUM_DRIVER_USER_AGENT :: "string option"

datatype signal = SpiderOpened | SpiderClosed

datatype receiver = MiddlewareSpiderClosed

record crawler =
  settings :: settings
  signals :: "(receiver \<times> signal) list"

definition from_crawler :: "env \<Rightarrow> crawler \<Rightarrow> error + middleware \<times> crawler" where
  "from_crawler e crawler =
     (let driver_name = SELENIUM_DRIVER_NAME (settings crawler);
          driver_executable_path = SELENIUM_DRIVER_EXECUTABLE_PATH (settings crawler);
          browser_executable_path = SELENIUM_BROWSER_EXECUTABLE_PATH (settings crawler);
          command_executor = SELENIUM_COMMAND_EXECUTOR (settings crawler);
          driver_arguments = SELENIUM_DRIVER_ARGUMENTS (settings crawler);
          desired_capabilities = SELENIUM_DRIVER_DESIRED_CAPABILITIES (settings crawler);
          driver_use_wire = SELENIUM_DRIVER_USE_WIRE (settings crawler);
          driver_wire_options = SELENIUM_DRIVER_WIRE_OPTIONS (settings crawler);
          driver_user_agent = SELENIUM_DRIVER_USER_AGENT (settings crawler)
      in
      case driver_name of
        None \<Rightarrow> Inl (NotConfigured ''SELENIUM_DRIVER_NAME must be set'')
      | Some name \<Rightarrow>
          if driver_executable_path = None \<and> command_executor = None then
            Inl (NotConfigured
                   ''Either SELENIUM_DRIVER_EXECUTABLE_PATH or SELENIUM_COMMAND_EXECUTOR must be set'')
          else
            (case init e name driver_executable_path browser_executable_path command_executor
                    driver_arguments desired_capabilities driver_use_wire driver_wire_options
                    driver_user_agent of
               Inl err \<Rightarrow> Inl err
             | Inr middleware \<Rightarrow>
                 Inr (middleware,
                      crawler\<lparr>signals := signals crawler @ [(MiddlewareSpiderClosed, SpiderClosed)]\<rparr>)))"

text \<open>
  The framework sends a signal by calling every receiver connected to it, in order; an
  exception of a receiver is logged by the framework and ends that receiver only.
\<close>

fun send_catch_log ::
  "browser \<Rightarrow> (receiver \<times> signal) list \<Rightarrow> signal \<Rightarrow> middleware \<Rightarrow> middleware" where
  "send_catch_log b [] sig self = self"
| "send_catch_log b ((MiddlewareSpiderClosed, s) # rest) sig self =
     send_catch_log b rest sig (if s = sig then snd (spider_closed b self) else self)"

section \<open>Notions used in the statements\<close>

text \<open>
  \<open>accepts b h cs\<close>: the browser raises on none of the calls \<open>cs\<close>, made one after the
  other on a session whose earlier calls are \<open>h\<close>.
\<close>

fun accepts :: "browser \<Rightarrow> command list \<Rightarrow> command list \<Rightarrow> bool" where
  "accepts b h [] = True"
| "accepts b h (c # cs) = (raises b h c = None \<and> accepts b (h @ [c]) cs)"

fun cookie_command :: "string \<times> string \<Rightarrow> command" where
  "cookie_command (n, v) = AddCookie n v"

fun is_add_cookie :: "command \<Rightarrow> bool" where
  "is_add_cookie (AddCookie n v) = True"
| "is_add_cookie c = False"

fun is_get :: "command \<Rightarrow> bool" where
  "is_get (Get u) = True"
| "is_get c = False"

text \<open>\<open>only_calls P m\<close>: whatever the step \<open>m\<close> calls on the driver satisfies \<open>P\<close>.\<close>

definition only_calls :: "(command \<Rightarrow> bool) \<Rightarrow> 'a step \<Rightarrow> bool" where
  "only_calls P m =
     (\<forall>s. \<exists>rest. calls (fst (snd (m s))) = calls (fst s) @ rest \<and> list_all P rest)"

text \<open>The middleware after it processed the given requests, one after the other.\<close>

fun serve :: "browser \<Rightarrow> middleware \<Rightarrow> request list \<Rightarrow> middleware" where
  "serve b self [] = self"
| "serve b self (r # rs) = serve b (fst (snd (process_request b self r))) rs"

text \<open>
  The cookies a session holds from \<^verbatim>\<open>add_cookie\<close>: replaying the calls \<open>cs\<close> made after
  the calls \<open>h\<close>, every accepted \<open>AddCookie n v\<close> stores \<open>v\<close> under \<open>n\<close>.
\<close>

fun replay_cookies ::
  "browser \<Rightarrow> command list \<Rightarrow> command list \<Rightarrow> (string \<rightharpoonup> string) \<Rightarrow> (string \<rightharpoonup> string)" where
  "replay_cookies b h [] jar = jar"
| "replay_cookies b h (c # cs) jar =
     replay_cookies b (h @ [c]) cs
       (case c of
          AddCookie n v \<Rightarrow> if raises b h c = None then jar(n \<mapsto> v) else jar
        | _ \<Rightarrow> jar)"

definition session_cookies :: "browser \<Rightarrow> command list \<Rightarrow> (string \<rightharpoonup> string)" where
  "session_cookies b h = replay_cookies b [] h Map.empty"

text \<open>
  The contract of \<^verbatim>\<open>quit\<close> in the browser-automation library: once \<^verbatim>\<open>quit\<close> was called
  on a session, every further call on it raises.
\<close>

definition quit_ends_session :: "browser \<Rightarrow> bool" where
  "quit_ends_session b = (\<forall>h c. Quit \<in> set h \<longrightarrow> raises b h c \<noteq> None)"

definition session_quit :: "middleware \<Rightarrow> bool" where
  "session_quit self = (case driver self of None \<Rightarrow> False | Some d \<Rightarrow> Quit \<in> set (calls d))"

definition is_wire :: "driver_ctor \<Rightarrow> bool" where
  "is_wire c = (case c of WireDriver n kw \<Rightarrow> True | _ \<Rightarrow> False)"

definition is_remote :: "driver_ctor \<Rightarrow> bool" where
  "is_remote c = (case c of RemoteDriver ce caps \<Rightarrow> True | _ \<Rightarrow> False)"

definition options_of :: "driver_ctor \<Rightarrow> options" where
  "options_of c =
     (case c of
        StandardDriver n kw \<Rightarrow> driver_options kw
      | WireDriver n kw \<Rightarrow> driver_options kw
      | RemoteDriver ce caps \<Rightarrow> (case caps of ToCapabilities opts \<Rightarrow> opts))"

text \<open>The argument the loop of the constructor appends for a configured argument.\<close>

definition substituted :: "string option \<Rightarrow> string \<Rightarrow> string" where
  "substituted driver_user_agent argument =
     (if startswith (lower argument) ''user-agent'' \<and> truthy_str driver_user_agent
      then (case driver_user_agent of Some ua \<Rightarrow> ua | None \<Rightarrow> argument)
      else argument)"

section \<open>Example data\<close>

fun last_navigation :: "command list \<Rightarrow> string \<Rightarrow> string" where
  "last_navigation [] u = u"
| "last_navigation (Get v # h) u = last_navigation h v"
| "last_navigation (c # h) u = last_navigation h u"

text \<open>
  A browser that serves one fixed page, stays at the URL it was sent to, never sees the
  condition \<open>''never''\<close> come true, and is dead after \<^verbatim>\<open>quit\<close>.
\<close>

definition example_browser :: browser where
  "example_browser =
     \<lparr>raises = (\<lambda>h c.
         if Quit \<in> set h then Some (WebDriverException ''invalid session id'')
         else (case c of
                 WaitUntil cond t \<Rightarrow> if cond = ''never'' then Some TimeoutException else None
               | _ \<Rightarrow> None)),
      png = (\<lambda>h. [0x89, 0x50, 0x4E, 0x47]),
      page = (\<lambda>h. [60, 112, 62, 233, 60, 47, 112, 62]),
      location = (\<lambda>h. last_navigation h ''about:blank'')\<rparr>"

definition example_env :: env where
  "example_env =
     \<lparr>importable = (\<lambda>m. True),
      wire_class = (\<lambda>n. True),
      options_raises = (\<lambda>n c.
         case c of
           AddArgument a \<Rightarrow> if a = [] then Some RaisesValueError else None
         | SetCapability k v \<Rightarrow> None),
      launch = (\<lambda>c. None)\<rparr>"

definition example_options :: options where
  "example_options = \<lparr>binary_location = None, arguments = [], capabilities = []\<rparr>"

definition example_driver :: webdriver where
  "example_driver =
     \<lparr>built = StandardDriver ''firefox''
                \<lparr>executable_path = ''/usr/bin/geckodriver'', options_keyword = ''firefox_options'',
                 driver_options = example_options, seleniumwire_options = None\<rparr>,
      calls = []\<rparr>"

definition example_middleware :: middleware where
  "example_middleware = \<lparr>driver = Some example_driver\<rparr>"

definition plain_request :: request where
  "plain_request = \<lparr>url = ''http://example.org/'', cookies = [], meta = [], selenium = None\<rparr>"

definition no_fields :: selenium_fields where
  "no_fields = \<lparr>wait_time = None, wait_until = None, screenshot = False, script = None\<rparr>"

definition marked_request :: request where
  "marked_request =
     \<lparr>url = ''http://example.org/'', cookies = [], meta = [], selenium = Some no_fields\<rparr>"

definition cookie_request :: request where
  "cookie_request =
     \<lparr>url = ''http://example.org/'', cookies = [(''a'', ''1''), (''b'', ''2'')], meta = [],
      selenium = Some no_fields\<rparr>"

definition waiting_request :: request where
  "waiting_request =
     \<lparr>url = ''http://example.org/'', cookies = [(''a'', ''1'')], meta = [],
      selenium = Some \<lparr>wait_time = Some 3, wait_until = Some ''never'', screenshot = True,
                       script = Some ''window.scrollTo(0, 0)''\<rparr>\<rparr>"

definition example_settings :: settings where
  "example_settings =
     \<lparr>SELENIUM_DRIVER_NAME = Some ''firefox'',
      SELENIUM_DRIVER_EXECUTABLE_PATH = Some ''/usr/bin/geckodriver'',
      SELENIUM_BROWSER_EXECUTABLE_PATH = None,
      SELENIUM_COMMAND_EXECUTOR = Some ''http://localhost:4444/wd/hub'',
      SELENIUM_DRIVER_ARGUMENTS = Some [''-headless'', ''User-Agent=old'', ''--window-size=800''],
      SELENIUM_DRIVER_DESIRED_CAPABILITIES = None,
      SELENIUM_DRIVER_USE_WIRE = PNone,
      SELENIUM_DRIVER_WIRE_OPTIONS = None,
      SELENIUM_DRIVER_USER_AGENT = Some ''user-agent=new''\<rparr>"

definition example_crawler :: crawler where
  "example_crawler = \<lparr>settings = example_settings, signals = []\<rparr>"

section \<open>Facts about the driver calls\<close>

lemma call_accepted:
  "raises b (calls d) c = None \<Longrightarrow> call b c d = (Inr (), d\<lparr>calls := calls d @ [c]\<rparr>)"
  by (simp add: call_def)

lemma call_raised:
  "raises b (calls d) c = Some e \<Longrightarrow> call b c d = (Inl (DriverError e), d\<lparr>calls := calls d @ [c]\<rparr>)"
  by (simp add: call_def)

lemma add_cookies_accepted:
  "accepts b (calls d) (map cookie_command cs) \<Longrightarrow>
   add_cookies b cs d = (Inr (), d\<lparr>calls := calls d @ map cookie_command cs\<rparr>)"
proof (induction cs arbitrary: d)
  case Nil
  then show ?case by simp
next
  case (Cons c cs)
  obtain n v where c: "c = (n, v)" by (cases c)
  from Cons.prems c have ok: "raises b (calls d) (AddCookie n v) = None"
    and rest: "accepts b (calls d @ [AddCookie n v]) (map cookie_command cs)"
    by simp_all
  let ?d = "d\<lparr>calls := calls d @ [AddCookie n v]\<rparr>"
  from rest have "accepts b (calls ?d) (map cookie_command cs)" by simp
  then have "add_cookies b cs ?d = (Inr (), ?d\<lparr>calls := calls ?d @ map cookie_command cs\<rparr>)"
    by (rule Cons.IH)
  with ok c show ?case
    by (simp add: add_cookie_def call_accepted)
qed

lemma accepts_append:
  "accepts b h (xs @ ys) = (accepts b h xs \<and> accepts b (h @ xs) ys)"
  by (induction xs arbitrary: h) auto

lemma only_calls_seq:
  assumes "only_calls P m" and "\<And>x. only_calls P (k x)"
  shows "only_calls P (seq m k)"
  unfolding only_calls_def
proof
  fix s
  obtain res s1 where m: "m s = (res, s1)" by (cases "m s")
  from assms(1) obtain r1 where r1: "calls (fst s1) = calls (fst s) @ r1" "list_all P r1"
    unfolding only_calls_def using m by (metis fst_conv snd_conv)
  show "\<exists>rest. calls (fst (snd (seq m k s))) = calls (fst s) @ rest \<and> list_all P rest"
  proof (cases res)
    case (Inl e)
    with m r1 show ?thesis by (auto simp: seq_def)
  next
    case (Inr x)
    from assms(2)[of x] obtain r2 where
      "calls (fst (snd (k x s1))) = calls (fst s1) @ r2" "list_all P r2"
      unfolding only_calls_def by blast
    with m r1 Inr have "calls (fst (snd (seq m k s))) = calls (fst s) @ (r1 @ r2) \<and> list_all P (r1 @ r2)"
      by (simp add: seq_def)
    then show ?thesis by blast
  qed
qed

lemma only_calls_skip: "only_calls P skip"
  by (simp add: only_calls_def skip_def)

lemma only_calls_raise_or_return: "only_calls P (raise_or_return x)"
  by (simp add: only_calls_def raise_or_return_def)

lemma only_calls_set_meta: "only_calls P (set_meta k v)"
  by (simp add: only_calls_def set_meta_def split: prod.splits)

lemma only_calls_return: "only_calls P (\<lambda>s. (x s, s))"
  by (simp add: only_calls_def)

lemma only_calls_call: "P c \<Longrightarrow> only_calls P (on_driver (call b c))"
  by (simp add: only_calls_def on_driver_def call_def split: prod.splits)

lemma only_calls_wait:
  "(\<And>t. P (WaitUntil c t)) \<Longrightarrow> only_calls P (on_driver (web_driver_wait_until b timeout c))"
  by (cases timeout) (simp_all add: only_calls_def on_driver_def web_driver_wait_until_def call_def split: prod.splits)

lemma only_calls_screenshot: "P GetScreenshotAsPng \<Longrightarrow> only_calls P (on_driver (get_screenshot_as_png b))"
  by (simp add: only_calls_def on_driver_def get_screenshot_as_png_def call_def split: prod.splits option.splits)

lemma only_calls_page_source: "P PageSource \<Longrightarrow> only_calls P (on_driver (page_source b))"
  by (simp add: only_calls_def on_driver_def page_source_def call_def split: prod.splits option.splits)

lemma only_calls_current_url: "P CurrentUrl \<Longrightarrow> only_calls P (on_driver (current_url b))"
  by (simp add: only_calls_def on_driver_def current_url_def call_def split: prod.splits option.splits)

lemma only_calls_finish_request:
  assumes "\<And>c t. P (WaitUntil c t)" and "P GetScreenshotAsPng" and "\<And>s. P (ExecuteScript s)"
    and "P PageSource" and "P CurrentUrl"
  shows "only_calls P (finish_request b f)"
  unfolding finish_request_def execute_script_def
  by (intro only_calls_seq only_calls_return)
     (auto intro!: only_calls_seq only_calls_skip only_calls_raise_or_return only_calls_set_meta
        only_calls_call only_calls_wait only_calls_screenshot only_calls_page_source
        only_calls_current_url assms split: option.splits)

lemma add_cookies_calls:
  "\<exists>rest. calls (snd (add_cookies b cs d)) = calls d @ rest \<and> list_all is_add_cookie rest"
proof (induction cs arbitrary: d)
  case Nil
  then show ?case by simp
next
  case (Cons c cs)
  obtain n v where c: "c = (n, v)" by (cases c)
  let ?d = "d\<lparr>calls := calls d @ [AddCookie n v]\<rparr>"
  from Cons.IH[of ?d] obtain rest where
    "calls (snd (add_cookies b cs ?d)) = calls d @ AddCookie n v # rest" "list_all is_add_cookie rest"
    by auto
  then show ?case
    using c by (cases "raises b (calls d) (AddCookie n v)") (auto simp: add_cookie_def call_def)
qed

lemma only_calls_add_cookies:
  "(\<And>n v. P (AddCookie n v)) \<Longrightarrow> only_calls P (on_driver (add_cookies b cs))"
proof -
  assume P: "\<And>n v. P (AddCookie n v)"
  have imp: "\<And>rest. list_all is_add_cookie rest \<Longrightarrow> list_all P rest"
  proof -
    fix rest show "list_all is_add_cookie rest \<Longrightarrow> list_all P rest"
      by (induction rest) (auto simp: P elim: is_add_cookie.elims)
  qed
  show ?thesis
    unfolding only_calls_def on_driver_def
    using add_cookies_calls[of b cs] imp
    by (auto split: prod.splits) (metis snd_conv)
qed

lemma only_calls_selenium_steps: "only_calls (\<lambda>c. True) (selenium_steps b request f)"
  unfolding selenium_steps_def driver_get_def
  by (intro only_calls_seq only_calls_call only_calls_add_cookies only_calls_finish_request) simp_all

lemma replay_cookies_append:
  "replay_cookies b h (xs @ ys) jar = replay_cookies b (h @ xs) ys (replay_cookies b h xs jar)"
  by (induction xs arbitrary: h jar) simp_all

lemma replay_cookies_other:
  "list_all (\<lambda>c. \<not> is_add_cookie c) xs \<Longrightarrow> replay_cookies b h xs jar = jar"
  by (induction xs arbitrary: h) (auto split: command.splits)

lemma replay_cookies_accepted:
  "accepts b h (map cookie_command cs) \<Longrightarrow>
   replay_cookies b h (map cookie_command cs) jar = jar ++ map_of (rev cs)"
proof (induction cs arbitrary: h jar)
  case Nil
  then show ?case by simp
next
  case (Cons c cs)
  obtain n v where c: "c = (n, v)" by (cases c)
  with Cons.prems have ok: "raises b h (AddCookie n v) = None"
    and rest: "accepts b (h @ [AddCookie n v]) (map cookie_command cs)" by simp_all
  have "replay_cookies b (h @ [AddCookie n v]) (map cookie_command cs) (jar(n \<mapsto> v))
          = jar(n \<mapsto> v) ++ map_of (rev cs)"
    using rest by (rule Cons.IH)
  also have "\<dots> = jar ++ map_of (rev (c # cs))"
    by (simp add: c map_add_def fun_eq_iff split: option.splits)
  finally show ?case using ok c by simp
qed

lemma map_of_rev_distinct:
  "distinct (map fst cs) \<Longrightarrow> (n, v) \<in> set cs \<Longrightarrow> map_of (rev cs) n = Some v"
  by (rule map_of_is_SomeI) (simp_all add: rev_map[symmetric])

lemma example_page_encoded:
  "str_encode (page example_browser h) = Inr [60, 112, 62, 195, 169, 60, 47, 112, 62]"
  by (simp add: example_browser_def is_surrogate_def utf8_char_def)

lemma example_browser_raises:
  "Quit \<notin> set h \<Longrightarrow> raises example_browser h c =
     (case c of WaitUntil cond t \<Rightarrow> if cond = ''never'' then Some TimeoutException else None
      | _ \<Rightarrow> None)"
  by (simp add: example_browser_def)

section \<open>The per-request hook\<close>

text \<open>
  Claim C2. A request that is not a \<^verbatim>\<open>SeleniumRequest\<close> is not handled: the hook returns
  \<^verbatim>\<open>None\<close>, the middleware and with it the list of calls made on the driver are as
  before (no browser interaction), and the request is unchanged. This holds for every
  browser and every state of the middleware.
\<close>

theorem process_request_unmarked:
  "selenium request = None \<Longrightarrow> process_request b self request = (Inr None, self, request)"
  by (simp add: process_request_def)

theorem process_request_unmarked_witness:
  "selenium plain_request = None \<and>
   process_request example_browser example_middleware plain_request
     = (Inr None, example_middleware, plain_request)"
  using process_request_unmarked [of plain_request example_browser example_middleware]
  by (simp add: plain_request_def)

text \<open>
  Claim C1. For a marked request without cookies, wait condition, screenshot flag and
  script, on a browser that raises on none of the three calls made and whose page source
  can be encoded: the hook calls \<^verbatim>\<open>get\<close> with the request's URL, then reads the page source
  and the current URL, makes no other call, and returns a response whose URL is the current
  URL the browser reported, whose body is the UTF-8 encoding of the page source read after
  the navigation, and whose encoding is \<^verbatim>\<open>utf-8\<close>. The request of the response carries the
  driver in its \<^verbatim>\<open>meta\<close>.
\<close>

theorem process_request_plain_marked:
  assumes "selenium request = Some f" and "cookies request = []" and "wait_until f = None"
    and "\<not> screenshot f" and "script f = None" and "driver self = Some d"
    and "accepts b (calls d) [Get (url request), PageSource, CurrentUrl]"
    and "str_encode (page b (calls d @ [Get (url request)])) = Inr bs"
  shows "process_request b self request =
           (Inr (Some (HtmlResponse (location b (calls d @ [Get (url request), PageSource])) bs ''utf-8''
                         (request\<lparr>meta := AList.update ''driver'' MetaDriver (meta request)\<rparr>))),
            self\<lparr>driver := Some (d\<lparr>calls := calls d @ [Get (url request), PageSource, CurrentUrl]\<rparr>)\<rparr>,
            request\<lparr>meta := AList.update ''driver'' MetaDriver (meta request)\<rparr>)"
  using assms
  by (simp add: process_request_def selenium_steps_def finish_request_def seq_def on_driver_def skip_def
      raise_or_return_def set_meta_def driver_get_def page_source_def current_url_def call_def)

theorem process_request_plain_marked_witness:
  "process_request example_browser example_middleware marked_request =
     (Inr (Some (HtmlResponse ''http://example.org/'' [60, 112, 62, 195, 169, 60, 47, 112, 62] ''utf-8''
                   (marked_request\<lparr>meta := [(''driver'', MetaDriver)]\<rparr>))),
      \<lparr>driver = Some (example_driver\<lparr>calls := [Get ''http://example.org/'', PageSource, CurrentUrl]\<rparr>)\<rparr>,
      marked_request\<lparr>meta := [(''driver'', MetaDriver)]\<rparr>)"
proof -
  have 1: "selenium marked_request = Some no_fields" by (simp add: marked_request_def)
  have 2: "cookies marked_request = []" by (simp add: marked_request_def)
  have 3: "wait_until no_fields = None" by (simp add: no_fields_def)
  have 4: "\<not> screenshot no_fields" by (simp add: no_fields_def)
  have 5: "script no_fields = None" by (simp add: no_fields_def)
  have 6: "driver example_middleware = Some example_driver" by (simp add: example_middleware_def)
  have 7: "accepts example_browser (calls example_driver) [Get (url marked_request), PageSource, CurrentUrl]"
    by (simp add: example_driver_def example_browser_raises)
  have 8: "str_encode (page example_browser (calls example_driver @ [Get (url marked_request)]))
             = Inr [60, 112, 62, 195, 169, 60, 47, 112, 62]"
    by (rule example_page_encoded)
  have u: "url marked_request = ''http://example.org/''" "meta marked_request = []"
    "calls example_driver = []"
    by (simp_all add: marked_request_def example_driver_def)
  have l: "location example_browser (calls example_driver @ [Get ''http://example.org/'', PageSource])
             = ''http://example.org/''"
    by (simp add: example_browser_def example_driver_def)
  show ?thesis
    using process_request_plain_marked [OF 1 2 3 4 5 6 7 8] u l
    by (simp add: example_middleware_def)
qed

text \<open>
  Claim C3. For a marked request with a wait condition and a wait timeout, once the
  navigation and the cookies went through: when the condition does not become true within
  the timeout (the wait raises \<^verbatim>\<open>TimeoutException\<close>), the hook raises that same exception
  and returns no response. The wait is the last call made on the driver and is made once
  (no retry, no screenshot, no script, no page source), and the request is unchanged.
\<close>

theorem process_request_wait_timeout:
  assumes "selenium request = Some f" and "wait_until f = Some c" and "wait_time f = Some t"
    and "driver self = Some d"
    and "accepts b (calls d) (Get (url request) # map cookie_command (cookies request))"
    and "raises b (calls d @ Get (url request) # map cookie_command (cookies request)) (WaitUntil c t)
           = Some TimeoutException"
  shows "process_request b self request =
           (Inl (DriverError TimeoutException),
            self\<lparr>driver := Some (d\<lparr>calls := calls d @ Get (url request) #
                                     map cookie_command (cookies request) @ [WaitUntil c t]\<rparr>)\<rparr>,
            request)"
proof -
  let ?d1 = "d\<lparr>calls := calls d @ [Get (url request)]\<rparr>"
  from assms(5) have g: "raises b (calls d) (Get (url request)) = None"
    and "accepts b (calls ?d1) (map cookie_command (cookies request))" by simp_all
  then have ck: "add_cookies b (cookies request) ?d1 =
      (Inr (), ?d1\<lparr>calls := calls ?d1 @ map cookie_command (cookies request)\<rparr>)"
    using add_cookies_accepted by blast
  show ?thesis
    using assms(1-4,6) g ck
    by (simp add: process_request_def selenium_steps_def finish_request_def seq_def on_driver_def
        driver_get_def web_driver_wait_until_def call_def)
qed

theorem process_request_wait_timeout_witness:
  "process_request example_browser example_middleware waiting_request =
     (Inl (DriverError TimeoutException),
      \<lparr>driver = Some (example_driver\<lparr>calls :=
          [Get ''http://example.org/'', AddCookie ''a'' ''1'', WaitUntil ''never'' 3]\<rparr>)\<rparr>,
      waiting_request)"
proof -
  let ?f = "\<lparr>wait_time = Some 3, wait_until = Some ''never'', screenshot = True,
             script = Some ''window.scrollTo(0, 0)''\<rparr>"
  have 1: "selenium waiting_request = Some ?f" by (simp add: waiting_request_def)
  have 2: "wait_until ?f = Some ''never''" by simp
  have 3: "wait_time ?f = Some 3" by simp
  have 4: "driver example_middleware = Some example_driver" by (simp add: example_middleware_def)
  have 5: "accepts example_browser (calls example_driver)
             (Get (url waiting_request) # map cookie_command (cookies waiting_request))"
    by (simp add: example_driver_def example_browser_raises waiting_request_def)
  have 6: "raises example_browser
             (calls example_driver @ Get (url waiting_request) # map cookie_command (cookies waiting_request))
             (WaitUntil ''never'' 3) = Some TimeoutException"
    by (simp add: example_driver_def example_browser_raises waiting_request_def)
  have u: "url waiting_request = ''http://example.org/''" "cookies waiting_request = [(''a'', ''1'')]"
    by (simp_all add: waiting_request_def)
  show ?thesis
    using process_request_wait_timeout [OF 1 2 3 4 5 6] u
    by (simp add: example_middleware_def example_driver_def)
qed

text \<open>
  Claim C5. For a marked request with a cookie dictionary (its keys distinct, as in every
  dictionary), on a browser that accepts the navigation and the \<^verbatim>\<open>add_cookie\<close> calls: the
  hook calls \<^verbatim>\<open>get\<close> with the request's URL first, then \<^verbatim>\<open>add_cookie\<close> once for each
  cookie, in the order of the dictionary, and afterwards neither navigates nor adds a
  cookie again, whatever the later steps do. After processing, the session holds every
  cookie of the request under its name with its value.
\<close>

theorem process_request_injects_cookies:
  assumes "selenium request = Some f" and "driver self = Some d"
    and "accepts b (calls d) (Get (url request) # map cookie_command (cookies request))"
    and "distinct (map fst (cookies request))"
  shows "\<exists>d' rest. driver (fst (snd (process_request b self request))) = Some d'
           \<and> calls d' = calls d @ Get (url request) # map cookie_command (cookies request) @ rest
           \<and> list_all (\<lambda>c. \<not> is_get c \<and> \<not> is_add_cookie c) rest
           \<and> (\<forall>(n, v) \<in> set (cookies request). session_cookies b (calls d') n = Some v)"
proof -
  let ?h = "calls d @ Get (url request) # map cookie_command (cookies request)"
  let ?d1 = "d\<lparr>calls := calls d @ [Get (url request)]\<rparr>"
  let ?d2 = "d\<lparr>calls := ?h\<rparr>"
  from assms(3) have g: "raises b (calls d) (Get (url request)) = None"
    and a: "accepts b (calls ?d1) (map cookie_command (cookies request))" by simp_all
  have ck: "add_cookies b (cookies request) ?d1 = (Inr (), ?d2)"
    using add_cookies_accepted[OF a] by simp
  have steps: "selenium_steps b request f (d, request) = finish_request b f (?d2, request)"
    using g ck by (simp add: selenium_steps_def seq_def on_driver_def driver_get_def call_def)
  have "only_calls (\<lambda>c. \<not> is_get c \<and> \<not> is_add_cookie c) (finish_request b f)"
    by (rule only_calls_finish_request) simp_all
  then have "\<exists>rest. calls (fst (snd (finish_request b f (?d2, request)))) = calls (fst (?d2, request)) @ rest
      \<and> list_all (\<lambda>c. \<not> is_get c \<and> \<not> is_add_cookie c) rest"
    unfolding only_calls_def by (rule allE)
  then obtain rest where rest: "calls (fst (snd (finish_request b f (?d2, request)))) = ?h @ rest"
    and other: "list_all (\<lambda>c. \<not> is_get c \<and> \<not> is_add_cookie c) rest"
    by auto
  obtain res d' request' where fin: "finish_request b f (?d2, request) = (res, d', request')"
    by (cases "finish_request b f (?d2, request)")
  with rest have d': "calls d' = ?h @ rest" by simp
  have drv: "driver (fst (snd (process_request b self request))) = Some d'"
    using assms(1,2) steps fin by (simp add: process_request_def)
  have jar: "session_cookies b (calls d') n = Some v" if "(n, v) \<in> set (cookies request)" for n v
  proof -
    have no_add: "list_all (\<lambda>c. \<not> is_add_cookie c) rest"
      using other by (simp add: list_all_iff)
    let ?h1 = "calls d @ [Get (url request)]"
    let ?ck = "map cookie_command (cookies request)"
    let ?j = "replay_cookies b [] ?h1 Map.empty"
    have "calls d' = ?h1 @ (?ck @ rest)"
      using d' by simp
    then have "session_cookies b (calls d') = replay_cookies b [] (?h1 @ (?ck @ rest)) Map.empty"
      by (simp only: session_cookies_def)
    also have "\<dots> = replay_cookies b ([] @ ?h1) (?ck @ rest) ?j"
      by (rule replay_cookies_append)
    also have "\<dots> = replay_cookies b (([] @ ?h1) @ ?ck) rest (replay_cookies b ([] @ ?h1) ?ck ?j)"
      by (rule replay_cookies_append)
    also have "\<dots> = replay_cookies b ([] @ ?h1) ?ck ?j"
      using no_add by (rule replay_cookies_other)
    also have "\<dots> = ?j ++ map_of (rev (cookies request))"
      using a by (simp add: replay_cookies_accepted)
    finally have "session_cookies b (calls d') = ?j ++ map_of (rev (cookies request))" .
    then show ?thesis
      using map_of_rev_distinct[OF assms(4) that] by (simp add: map_add_def)
  qed
  have "calls d' = calls d @ Get (url request) # map cookie_command (cookies request) @ rest"
    using d' by simp
  moreover have "\<forall>(n, v) \<in> set (cookies request). session_cookies b (calls d') n = Some v"
    using jar by auto
  ultimately show ?thesis using drv other by blast
qed

theorem process_request_injects_cookies_witness:
  "\<exists>d'. driver (fst (snd (process_request example_browser example_middleware cookie_request))) = Some d'
     \<and> take 3 (calls d') = [Get ''http://example.org/'', AddCookie ''a'' ''1'', AddCookie ''b'' ''2'']
     \<and> session_cookies example_browser (calls d') ''a'' = Some ''1''
     \<and> session_cookies example_browser (calls d') ''b'' = Some ''2''"
proof -
  have 1: "selenium cookie_request = Some no_fields" by (simp add: cookie_request_def)
  have 2: "driver example_middleware = Some example_driver" by (simp add: example_middleware_def)
  have u: "url cookie_request = ''http://example.org/''"
    "cookies cookie_request = [(''a'', ''1''), (''b'', ''2'')]" "calls example_driver = []"
    by (simp_all add: cookie_request_def example_driver_def)
  have 3: "accepts example_browser (calls example_driver)
             (Get (url cookie_request) # map cookie_command (cookies cookie_request))"
    by (simp add: u example_browser_raises)
  have 4: "distinct (map fst (cookies cookie_request))" by (simp add: u)
  show ?thesis
    using process_request_injects_cookies [OF 1 2 3 4] by (auto simp: u)
qed

section \<open>Facts about construction and shutdown\<close>

lemma process_request_driver:
  assumes "driver self = Some d"
  shows "\<exists>d' rest. driver (fst (snd (process_request b self request))) = Some d' \<and> calls d' = calls d @ rest"
proof (cases "selenium request")
  case None
  with assms show ?thesis by (simp add: process_request_def)
next
  case (Some f)
  obtain res d' request' where st: "selenium_steps b request f (d, request) = (res, d', request')"
    by (cases "selenium_steps b request f (d, request)")
  have "\<exists>rest. calls (fst (snd (selenium_steps b request f (d, request)))) = calls (fst (d, request)) @ rest
          \<and> list_all (\<lambda>c. True) rest"
    using only_calls_selenium_steps[of b request f] unfolding only_calls_def by (rule allE)
  with st obtain rest where "calls d' = calls d @ rest" by auto
  with assms Some st show ?thesis by (simp add: process_request_def)
qed

lemma process_request_keeps_quit:
  "session_quit self \<Longrightarrow> session_quit (fst (snd (process_request b self request)))"
proof -
  assume q: "session_quit self"
  then obtain d where d: "driver self = Some d" "Quit \<in> set (calls d)"
    by (auto simp: session_quit_def split: option.splits)
  from process_request_driver[OF d(1), of b request] d(2) show ?thesis
    by (auto simp: session_quit_def)
qed

lemma process_request_keeps_driver:
  "driver self \<noteq> None \<Longrightarrow> driver (fst (snd (process_request b self request))) \<noteq> None"
  using process_request_driver[of self _ b request] by auto

lemma serve_keeps_driver: "driver self \<noteq> None \<Longrightarrow> driver (serve b self rs) \<noteq> None"
proof (induction rs arbitrary: self)
  case Nil
  then show ?case by simp
next
  case (Cons r rs)
  from Cons.prems have "driver (fst (snd (process_request b self r))) \<noteq> None"
    by (rule process_request_keeps_driver)
  then have "driver (serve b (fst (snd (process_request b self r))) rs) \<noteq> None"
    by (rule Cons.IH)
  then show ?case by simp
qed

lemma serve_keeps_quit: "session_quit self \<Longrightarrow> session_quit (serve b self rs)"
  by (induction rs arbitrary: self) (simp_all add: process_request_keeps_quit)

lemma spider_closed_quits:
  "driver self = Some d \<Longrightarrow>
   snd (spider_closed b self) = self\<lparr>driver := Some (d\<lparr>calls := calls d @ [Quit]\<rparr>)\<rparr>"
  by (simp add: spider_closed_def quit_def call_def)

lemma spider_closed_keeps_quit: "session_quit self \<Longrightarrow> session_quit (snd (spider_closed b self))"
  by (auto simp: session_quit_def spider_closed_def quit_def call_def split: option.splits)

lemma send_catch_log_keeps_quit:
  "session_quit self \<Longrightarrow> session_quit (send_catch_log b sigs sig self)"
  by (induction b sigs sig self rule: send_catch_log.induct) (simp_all add: spider_closed_keeps_quit)

lemma send_catch_log_quits:
  "driver self \<noteq> None \<Longrightarrow> (MiddlewareSpiderClosed, SpiderClosed) \<in> set sigs \<Longrightarrow>
   session_quit (send_catch_log b sigs SpiderClosed self)"
proof (induction sigs arbitrary: self)
  case Nil
  then show ?case by simp
next
  case (Cons x sigs)
  obtain rcv s where x: "x = (rcv, s)" by (cases x)
  have rcv: "rcv = MiddlewareSpiderClosed" by (cases rcv)
  from Cons.prems(1) obtain d where d: "driver self = Some d" by auto
  show ?case
  proof (cases "s = SpiderClosed")
    case True
    have "session_quit (snd (spider_closed b self))"
      using d by (simp add: spider_closed_quits session_quit_def)
    then show ?thesis using True x rcv by (simp add: send_catch_log_keeps_quit)
  next
    case False
    with Cons.prems(2) x have "(MiddlewareSpiderClosed, SpiderClosed) \<in> set sigs" by auto
    with Cons.prems(1) have "session_quit (send_catch_log b sigs SpiderClosed self)"
      by (rule Cons.IH)
    then show ?thesis using False x rcv by simp
  qed
qed

lemma quit_session_fails:
  assumes "session_quit self" and "quit_ends_session b" and "selenium request = Some f"
  shows "\<exists>e. fst (process_request b self request) = Inl (DriverError e)"
proof -
  from assms(1) obtain d where d: "driver self = Some d" "Quit \<in> set (calls d)"
    by (auto simp: session_quit_def split: option.splits)
  with assms(2) obtain e where "raises b (calls d) (Get (url request)) = Some e"
    unfolding quit_ends_session_def by blast
  with d assms(3) show ?thesis
    by (simp add: process_request_def selenium_steps_def seq_def on_driver_def driver_get_def call_def)
qed

lemma construct_Inr: "construct e c = Inr d \<Longrightarrow> d = \<lparr>built = c, calls = []\<rparr>"
  by (auto simp: construct_def split: option.splits)

lemma construct_not_NotConfigured: "construct e c \<noteq> Inl (NotConfigured msg)"
  by (auto simp: construct_def split: option.splits)

lemma local_driver_Inr:
  "local_driver e n path opts w wo = Inr d \<Longrightarrow>
   calls d = [] \<and> (is_wire (built d) \<longleftrightarrow> w = PBool True) \<and> \<not> is_remote (built d) \<and>
   options_of (built d) = opts \<and>
   (\<exists>kw. executable_path kw = path \<and>
      built d = (if w = PBool True then WireDriver (capitalize n) kw else StandardDriver n kw))"
  by (auto simp: local_driver_def Let_def is_wire_def is_remote_def options_of_def
      split: if_splits sum.splits dest!: construct_Inr)

lemma local_driver_not_True:
  "w \<noteq> PBool True \<Longrightarrow> local_driver e n path opts w wo = local_driver e n path opts PNone wo'"
  by (simp add: local_driver_def)

lemma local_driver_not_NotConfigured: "local_driver e n path opts w wo \<noteq> Inl (NotConfigured msg)"
  by (auto simp: local_driver_def Let_def import_module_def construct_not_NotConfigured split: if_splits sum.splits)

lemma remote_driver_Inr:
  "remote_driver e ce opts = Inr d \<Longrightarrow> d = \<lparr>built = RemoteDriver ce (ToCapabilities opts), calls = []\<rparr>"
  by (auto simp: remote_driver_def dest: construct_Inr)

lemma add_arguments_not_NotConfigured:
  "add_arguments e n ua args opts \<noteq> Inl (NotConfigured msg)"
proof (induction args arbitrary: opts)
  case Nil
  then show ?case by simp
next
  case (Cons a args)
  then show ?case
    by (cases "options_raises e n (AddArgument (if startswith (lower a) ''user-agent''
              then (case ua of Some u \<Rightarrow> if u \<noteq> [] then u else a | None \<Rightarrow> a) else a))")
       (auto simp: add_argument_def elim: raised.elims)
qed

lemma set_capabilities_not_NotConfigured:
  "set_capabilities e n caps opts \<noteq> Inl (NotConfigured msg)"
proof (induction caps arbitrary: opts)
  case Nil
  then show ?case by simp
next
  case (Cons c caps)
  obtain k v where c: "c = (k, v)" by (cases c)
  with Cons show ?case
    by (cases "options_raises e n (SetCapability k v)")
       (auto simp: set_capability_def elim: raised.elims)
qed

lemma configured_options_not_NotConfigured:
  "configured_options e n bp args caps ua \<noteq> Inl (NotConfigured msg)"
  by (auto simp: configured_options_def with_capabilities_def add_arguments_not_NotConfigured
      set_capabilities_not_NotConfigured split: sum.splits option.splits)

lemma init_Inr:
  assumes "init e n p bp ce args caps w wo ua = Inr self"
  shows "\<exists>args' opts. args = Some args' \<and> configured_options e n bp args' caps ua = Inr opts \<and>
           (case p of
              Some path \<Rightarrow> \<exists>d. local_driver e n path opts w wo = Inr d \<and> self = \<lparr>driver = Some d\<rparr>
            | None \<Rightarrow>
               (case ce of
                  Some c \<Rightarrow> \<exists>d. remote_driver e c opts = Inr d \<and> self = \<lparr>driver = Some d\<rparr>
                | None \<Rightarrow> self = \<lparr>driver = None\<rparr>))"
  using assms
  by (auto simp: init_def split: sum.splits option.splits)

lemma init_not_NotConfigured:
  "init e n p bp ce args caps w wo ua \<noteq> Inl (NotConfigured msg)"
  by (auto simp: init_def import_module_def remote_driver_def construct_not_NotConfigured
      local_driver_not_NotConfigured configured_options_not_NotConfigured
      split: sum.splits option.splits)

lemma init_driver:
  "init e n p bp ce args caps w wo ua = Inr self \<Longrightarrow> p \<noteq> None \<or> ce \<noteq> None \<Longrightarrow> driver self \<noteq> None"
  by (drule init_Inr) (auto split: option.splits)

lemma from_crawler_Inr:
  "from_crawler e crawler = Inr (self, crawler') \<Longrightarrow>
   driver self \<noteq> None \<and> crawler' = crawler\<lparr>signals := signals crawler @ [(MiddlewareSpiderClosed, SpiderClosed)]\<rparr>"
  by (auto simp: from_crawler_def Let_def split: sum.splits option.splits if_splits dest: init_driver)

lemma add_arguments_accepted:
  "\<forall>a \<in> set args. options_raises e n (AddArgument (substituted ua a)) = None \<Longrightarrow>
   add_arguments e n ua args opts = Inr (opts\<lparr>arguments := arguments opts @ map (substituted ua) args\<rparr>)"
proof (induction args arbitrary: opts)
  case Nil
  then show ?case by simp
next
  case (Cons a args)
  have s: "(if startswith (lower a) ''user-agent''
            then (case ua of Some u \<Rightarrow> if u \<noteq> [] then u else a | None \<Rightarrow> a) else a) = substituted ua a"
    by (auto simp: substituted_def truthy_str_def split: option.splits)
  from Cons.prems have ok: "options_raises e n (AddArgument (substituted ua a)) = None"
    and rest: "\<forall>a \<in> set args. options_raises e n (AddArgument (substituted ua a)) = None"
    by simp_all
  show ?case
    using ok Cons.IH[OF rest] by (simp add: s add_argument_def)
qed

lemma arguments_add_arguments:
  "add_arguments e n ua args opts = Inr opts' \<Longrightarrow>
   arguments opts' = arguments opts @ map (substituted ua) args"
proof (induction args arbitrary: opts)
  case Nil
  then show ?case by simp
next
  case (Cons a args)
  have s: "(if startswith (lower a) ''user-agent''
            then (case ua of Some u \<Rightarrow> if u \<noteq> [] then u else a | None \<Rightarrow> a) else a) = substituted ua a"
    by (auto simp: substituted_def truthy_str_def split: option.splits)
  from Cons.prems obtain o1 where 1: "add_argument e n (substituted ua a) opts = Inr o1"
    and 2: "add_arguments e n ua args o1 = Inr opts'"
    by (auto simp: s split: sum.splits)
  from 1 have "arguments o1 = arguments opts @ [substituted ua a]"
    by (auto simp: add_argument_def split: option.splits)
  with Cons.IH[OF 2] show ?case by simp
qed

lemma arguments_set_capabilities:
  "set_capabilities e n caps opts = Inr opts' \<Longrightarrow> arguments opts' = arguments opts"
proof (induction caps arbitrary: opts)
  case Nil
  then show ?case by simp
next
  case (Cons c caps)
  obtain k v where c: "c = (k, v)" by (cases c)
  from Cons.prems c obtain o1 where 1: "set_capability e n k v opts = Inr o1"
    and 2: "set_capabilities e n caps o1 = Inr opts'"
    by (auto split: sum.splits)
  from 1 have "arguments o1 = arguments opts"
    by (auto simp: set_capability_def split: option.splits)
  with Cons.IH[OF 2] show ?case by simp
qed

lemma arguments_configured_options:
  "configured_options e n bpath args caps ua = Inr opts \<Longrightarrow> arguments opts = map (substituted ua) args"
  by (auto simp: configured_options_def with_capabilities_def with_binary_location_def
      split: sum.splits option.splits if_splits
      dest!: arguments_add_arguments arguments_set_capabilities)

lemmas example_eval =
  init_def import_module_def example_env_def configured_options_def with_capabilities_def
  truthy_dict_def with_binary_location_def truthy_str_def add_argument_def set_capability_def
  startswith_def
  lower_def lower_char_def remote_driver_def construct_def local_driver_def capitalize_def
  upper_char_def Let_def char_of_def bit_Suc_0_iff

lemma example_from_crawler:
  "from_crawler example_env example_crawler =
     Inr (\<lparr>driver = Some \<lparr>built = StandardDriver ''firefox''
              \<lparr>executable_path = ''/usr/bin/geckodriver'', options_keyword = ''firefox_options'',
               driver_options = \<lparr>binary_location = None,
                  arguments = [''-headless'', ''user-agent=new'', ''--window-size=800''],
                  capabilities = []\<rparr>,
               seleniumwire_options = None\<rparr>, calls = []\<rparr>\<rparr>,
          \<lparr>settings = example_settings, signals = [(MiddlewareSpiderClosed, SpiderClosed)]\<rparr>)"
  by (simp add: from_crawler_def example_crawler_def example_settings_def example_eval)

lemma example_refused_argument:
  "init example_env ''chrome'' (Some ''/usr/bin/chromedriver'') None None (Some [''a'', []])
     None PNone None None = Inl ValueError"
  by (simp add: example_eval)

lemma example_quit_ends_session: "quit_ends_session example_browser"
  by (simp add: quit_ends_session_def example_browser_def)

section \<open>Shutdown\<close>

text \<open>
  Claim C8. \<open>from_crawler\<close> connects the method \<^verbatim>\<open>spider_closed\<close> of the middleware it
  built to the signal \<^verbatim>\<open>spider_closed\<close>. When the framework sends that signal, after the
  middleware served any requests, the middleware calls \<^verbatim>\<open>quit\<close> on its one driver. From
  then on, given that a session on which \<^verbatim>\<open>quit\<close> was called raises on every further call,
  every marked request handed to the hook raises a driver exception and gets no response,
  also after any number of further requests: nothing opens a session again.
\<close>

theorem spider_closed_releases_session:
  assumes "from_crawler e crawler = Inr (self, crawler')"
    and "quit_ends_session b"
    and "selenium request \<noteq> None"
    and "closed = send_catch_log b (signals crawler') SpiderClosed (serve b self before)"
  shows "session_quit closed
       \<and> (\<exists>err. fst (process_request b (serve b closed after) request) = Inl (DriverError err))
       \<and> session_quit (fst (snd (process_request b (serve b closed after) request)))"
proof -
  from from_crawler_Inr[OF assms(1)] have drv: "driver self \<noteq> None"
    and con: "(MiddlewareSpiderClosed, SpiderClosed) \<in> set (signals crawler')" by simp_all
  from drv have "driver (serve b self before) \<noteq> None" by (rule serve_keeps_driver)
  then have q: "session_quit closed"
    unfolding assms(4) using con by (rule send_catch_log_quits)
  then have q': "session_quit (serve b closed after)" by (rule serve_keeps_quit)
  from assms(3) obtain f where "selenium request = Some f" by auto
  with q' assms(2) have "\<exists>err. fst (process_request b (serve b closed after) request) = Inl (DriverError err)"
    by (rule quit_session_fails)
  with q q' show ?thesis by (simp add: process_request_keeps_quit)
qed

theorem spider_closed_releases_session_witness:
  "\<exists>self crawler'. from_crawler example_env example_crawler = Inr (self, crawler')
     \<and> session_quit (send_catch_log example_browser (signals crawler') SpiderClosed
                       (serve example_browser self [marked_request]))
     \<and> (\<exists>err. fst (process_request example_browser
                      (serve example_browser
                         (send_catch_log example_browser (signals crawler') SpiderClosed
                            (serve example_browser self [marked_request])) [plain_request])
                      marked_request) = Inl (DriverError err))"
proof -
  obtain self crawler' where i: "from_crawler example_env example_crawler = Inr (self, crawler')"
    by (simp add: example_from_crawler)
  have m: "selenium marked_request \<noteq> None" by (simp add: marked_request_def)
  show ?thesis
    using spider_closed_releases_session [OF i example_quit_ends_session m refl,
        of "[marked_request]" "[plain_request]"] i
    by blast
qed

section \<open>Construction from the settings\<close>

text \<open>
  Claim C4. \<open>from_crawler\<close> raises \<^verbatim>\<open>NotConfigured\<close> exactly when the setting
  \<^verbatim>\<open>SELENIUM_DRIVER_NAME\<close> is unset, or \<^verbatim>\<open>SELENIUM_DRIVER_EXECUTABLE_PATH\<close> and
  \<^verbatim>\<open>SELENIUM_COMMAND_EXECUTOR\<close> are both unset. In every other case it calls the
  constructor with the nine settings: what the constructor raises, \<open>from_crawler\<close> raises,
  and the middleware the constructor returns is returned, with \<^verbatim>\<open>spider_closed\<close> connected.
\<close>

theorem from_crawler_not_configured:
  "((\<exists>msg. from_crawler e crawler = Inl (NotConfigured msg)) \<longleftrightarrow>
      (SELENIUM_DRIVER_NAME (settings crawler) = None \<or>
       (SELENIUM_DRIVER_EXECUTABLE_PATH (settings crawler) = None \<and>
        SELENIUM_COMMAND_EXECUTOR (settings crawler) = None)))
   \<and> (\<forall>name. SELENIUM_DRIVER_NAME (settings crawler) = Some name \<and>
         \<not> (SELENIUM_DRIVER_EXECUTABLE_PATH (settings crawler) = None \<and>
            SELENIUM_COMMAND_EXECUTOR (settings crawler) = None) \<longrightarrow>
         from_crawler e crawler =
           (case init e name
                   (SELENIUM_DRIVER_EXECUTABLE_PATH (settings crawler))
                   (SELENIUM_BROWSER_EXECUTABLE_PATH (settings crawler))
                   (SELENIUM_COMMAND_EXECUTOR (settings crawler))
                   (SELENIUM_DRIVER_ARGUMENTS (settings crawler))
                   (SELENIUM_DRIVER_DESIRED_CAPABILITIES (settings crawler))
                   (SELENIUM_DRIVER_USE_WIRE (settings crawler))
                   (SELENIUM_DRIVER_WIRE_OPTIONS (settings crawler))
                   (SELENIUM_DRIVER_USER_AGENT (settings crawler)) of
              Inl err \<Rightarrow> Inl err
            | Inr middleware \<Rightarrow>
                Inr (middleware,
                     crawler\<lparr>signals := signals crawler @ [(MiddlewareSpiderClosed, SpiderClosed)]\<rparr>)))"
proof (intro conjI allI impI iffI)
  assume "\<exists>msg. from_crawler e crawler = Inl (NotConfigured msg)"
  then show "SELENIUM_DRIVER_NAME (settings crawler) = None \<or>
       (SELENIUM_DRIVER_EXECUTABLE_PATH (settings crawler) = None \<and>
        SELENIUM_COMMAND_EXECUTOR (settings crawler) = None)"
    by (auto simp: from_crawler_def Let_def init_not_NotConfigured split: option.splits if_splits sum.splits)
next
  assume "SELENIUM_DRIVER_NAME (settings crawler) = None \<or>
       (SELENIUM_DRIVER_EXECUTABLE_PATH (settings crawler) = None \<and>
        SELENIUM_COMMAND_EXECUTOR (settings crawler) = None)"
  then show "\<exists>msg. from_crawler e crawler = Inl (NotConfigured msg)"
    by (auto simp: from_crawler_def Let_def split: option.splits)
next
  fix name
  assume "SELENIUM_DRIVER_NAME (settings crawler) = Some name \<and>
         \<not> (SELENIUM_DRIVER_EXECUTABLE_PATH (settings crawler) = None \<and>
            SELENIUM_COMMAND_EXECUTOR (settings crawler) = None)"
  then show "from_crawler e crawler =
           (case init e name
                   (SELENIUM_DRIVER_EXECUTABLE_PATH (settings crawler))
                   (SELENIUM_BROWSER_EXECUTABLE_PATH (settings crawler))
                   (SELENIUM_COMMAND_EXECUTOR (settings crawler))
                   (SELENIUM_DRIVER_ARGUMENTS (settings crawler))
                   (SELENIUM_DRIVER_DESIRED_CAPABILITIES (settings crawler))
                   (SELENIUM_DRIVER_USE_WIRE (settings crawler))
                   (SELENIUM_DRIVER_WIRE_OPTIONS (settings crawler))
                   (SELENIUM_DRIVER_USER_AGENT (settings crawler)) of
              Inl err \<Rightarrow> Inl err
            | Inr middleware \<Rightarrow>
                Inr (middleware,
                     crawler\<lparr>signals := signals crawler @ [(MiddlewareSpiderClosed, SpiderClosed)]\<rparr>))"
    by (auto simp: from_crawler_def Let_def)
qed

theorem from_crawler_not_configured_witness:
  "(\<exists>self. from_crawler example_env example_crawler =
      Inr (self, example_crawler\<lparr>signals := [(MiddlewareSpiderClosed, SpiderClosed)]\<rparr>))
   \<and> (\<exists>msg. from_crawler example_env
               (example_crawler\<lparr>settings := example_settings\<lparr>SELENIUM_DRIVER_NAME := None\<rparr>\<rparr>)
             = Inl (NotConfigured msg))
   \<and> (\<exists>msg. from_crawler example_env
               (example_crawler\<lparr>settings := example_settings\<lparr>SELENIUM_DRIVER_EXECUTABLE_PATH := None,
                                                              SELENIUM_COMMAND_EXECUTOR := None\<rparr>\<rparr>)
             = Inl (NotConfigured msg))"
proof -
  have n: "SELENIUM_DRIVER_NAME (settings example_crawler) = Some ''firefox'' \<and>
           \<not> (SELENIUM_DRIVER_EXECUTABLE_PATH (settings example_crawler) = None \<and>
              SELENIUM_COMMAND_EXECUTOR (settings example_crawler) = None)"
    by (simp add: example_crawler_def example_settings_def)
  have i: "\<exists>self. init example_env ''firefox''
                   (SELENIUM_DRIVER_EXECUTABLE_PATH (settings example_crawler))
                   (SELENIUM_BROWSER_EXECUTABLE_PATH (settings example_crawler))
                   (SELENIUM_COMMAND_EXECUTOR (settings example_crawler))
                   (SELENIUM_DRIVER_ARGUMENTS (settings example_crawler))
                   (SELENIUM_DRIVER_DESIRED_CAPABILITIES (settings example_crawler))
                   (SELENIUM_DRIVER_USE_WIRE (settings example_crawler))
                   (SELENIUM_DRIVER_WIRE_OPTIONS (settings example_crawler))
                   (SELENIUM_DRIVER_USER_AGENT (settings example_crawler)) = Inr self"
    by (simp add: example_crawler_def example_settings_def example_eval)
  have s: "signals example_crawler = []" by (simp add: example_crawler_def)
  have 1: "\<exists>self. from_crawler example_env example_crawler =
      Inr (self, example_crawler\<lparr>signals := [(MiddlewareSpiderClosed, SpiderClosed)]\<rparr>)"
    using from_crawler_not_configured [of example_env example_crawler] n i s by auto
  have 2: "\<exists>msg. from_crawler example_env
               (example_crawler\<lparr>settings := example_settings\<lparr>SELENIUM_DRIVER_NAME := None\<rparr>\<rparr>)
             = Inl (NotConfigured msg)"
    using from_crawler_not_configured
      [of example_env "example_crawler\<lparr>settings := example_settings\<lparr>SELENIUM_DRIVER_NAME := None\<rparr>\<rparr>"]
    by simp
  have 3: "\<exists>msg. from_crawler example_env
               (example_crawler\<lparr>settings := example_settings\<lparr>SELENIUM_DRIVER_EXECUTABLE_PATH := None,
                                                              SELENIUM_COMMAND_EXECUTOR := None\<rparr>\<rparr>)
             = Inl (NotConfigured msg)"
    using from_crawler_not_configured
      [of example_env "example_crawler\<lparr>settings := example_settings\<lparr>SELENIUM_DRIVER_EXECUTABLE_PATH := None,
                                                              SELENIUM_COMMAND_EXECUTOR := None\<rparr>\<rparr>"]
    by simp
  from 1 2 3 show ?thesis by blast
qed

text \<open>
  Claim C6. Without a local executable path and with a command executor, the constructor
  does the same whatever \<^verbatim>\<open>driver_use_wire\<close> and \<^verbatim>\<open>driver_wire_options\<close> are; when it
  returns, the driver is the remote driver for that command executor, built from the
  capabilities of the configured options, with no wire options anywhere.
\<close>

theorem init_remote_ignores_wire:
  "init e driver_name None bpath (Some ce) args caps use_wire wire_options ua
     = init e driver_name None bpath (Some ce) args caps use_wire' wire_options' ua
   \<and> (\<forall>self. init e driver_name None bpath (Some ce) args caps use_wire wire_options ua = Inr self \<longrightarrow>
        (\<exists>args' opts. args = Some args' \<and>
           configured_options e driver_name bpath args' caps ua = Inr opts \<and>
           driver self = Some \<lparr>built = RemoteDriver ce (ToCapabilities opts), calls = []\<rparr>))"
proof (intro conjI allI impI)
  show "init e driver_name None bpath (Some ce) args caps use_wire wire_options ua
     = init e driver_name None bpath (Some ce) args caps use_wire' wire_options' ua"
    by (simp add: init_def split: sum.split option.split)
next
  fix self
  assume "init e driver_name None bpath (Some ce) args caps use_wire wire_options ua = Inr self"
  from init_Inr[OF this] show "\<exists>args' opts. args = Some args' \<and>
           configured_options e driver_name bpath args' caps ua = Inr opts \<and>
           driver self = Some \<lparr>built = RemoteDriver ce (ToCapabilities opts), calls = []\<rparr>"
    by (auto dest: remote_driver_Inr)
qed

theorem init_remote_ignores_wire_witness:
  "init example_env ''chrome'' None None (Some ''http://localhost:4444/wd/hub'') (Some [''--headless''])
       None (PBool True) (Some [(''port'', PInt 8080)]) None
     = init example_env ''chrome'' None None (Some ''http://localhost:4444/wd/hub'') (Some [''--headless''])
         None PNone None None
   \<and> (\<exists>self. init example_env ''chrome'' None None (Some ''http://localhost:4444/wd/hub'')
                (Some [''--headless'']) None (PBool True) (Some [(''port'', PInt 8080)]) None = Inr self
         \<and> driver self = Some \<lparr>built = RemoteDriver ''http://localhost:4444/wd/hub''
                                  (ToCapabilities \<lparr>binary_location = None, arguments = [''--headless''],
                                                   capabilities = []\<rparr>),
                                calls = []\<rparr>)"
proof -
  obtain self where i: "init example_env ''chrome'' None None (Some ''http://localhost:4444/wd/hub'')
                (Some [''--headless'']) None (PBool True) (Some [(''port'', PInt 8080)]) None = Inr self"
    by (simp add: example_eval)
  have c: "configured_options example_env ''chrome'' None [''--headless''] None None
             = Inr \<lparr>binary_location = None, arguments = [''--headless''], capabilities = []\<rparr>"
    by (simp add: example_eval)
  note t = init_remote_ignores_wire [of example_env "''chrome''" None "''http://localhost:4444/wd/hub''"
        "Some [''--headless'']" None "PBool True" "Some [(''port'', PInt 8080)]" None PNone None]
  from t have eq: "init example_env ''chrome'' None None (Some ''http://localhost:4444/wd/hub'') (Some [''--headless''])
       None (PBool True) (Some [(''port'', PInt 8080)]) None
     = init example_env ''chrome'' None None (Some ''http://localhost:4444/wd/hub'') (Some [''--headless''])
         None PNone None None"
    by (rule conjunct1)
  from t i have "\<exists>args' opts. Some [''--headless''] = Some args' \<and>
      configured_options example_env ''chrome'' None args' None None = Inr opts \<and>
      driver self = Some \<lparr>built = RemoteDriver ''http://localhost:4444/wd/hub'' (ToCapabilities opts),
                            calls = []\<rparr>"
    by blast
  then have "driver self = Some \<lparr>built = RemoteDriver ''http://localhost:4444/wd/hub''
                              (ToCapabilities \<lparr>binary_location = None, arguments = [''--headless''],
                                               capabilities = []\<rparr>),
                            calls = []\<rparr>"
    using c by auto
  with eq i show ?thesis by blast
qed

text \<open>
  Claim C9. With a local executable path, the constructor does the same whatever the
  command executor is; when both are given and it returns, the driver is a local one
  (the standard or the wire class, started with that executable path), never the remote
  driver.
\<close>

theorem init_local_precedence:
  "init e driver_name (Some path) bpath ce args caps use_wire wire_options ua
     = init e driver_name (Some path) bpath ce' args caps use_wire wire_options ua
   \<and> (\<forall>self. init e driver_name (Some path) bpath (Some endpoint) args caps use_wire wire_options ua = Inr self \<longrightarrow>
        (\<exists>d kw. driver self = Some d \<and> \<not> is_remote (built d) \<and> executable_path kw = path \<and>
           built d = (if use_wire = PBool True then WireDriver (capitalize driver_name) kw
                      else StandardDriver driver_name kw)))"
proof (intro conjI allI impI)
  show "init e driver_name (Some path) bpath ce args caps use_wire wire_options ua
     = init e driver_name (Some path) bpath ce' args caps use_wire wire_options ua"
    by (simp add: init_def Let_def split: sum.split option.split)
next
  fix self
  assume "init e driver_name (Some path) bpath (Some endpoint) args caps use_wire wire_options ua = Inr self"
  from init_Inr[OF this] obtain opts d where
    "local_driver e driver_name path opts use_wire wire_options = Inr d"
    and self: "self = \<lparr>driver = Some d\<rparr>" by auto
  from local_driver_Inr[OF this(1)] self
  show "\<exists>d kw. driver self = Some d \<and> \<not> is_remote (built d) \<and> executable_path kw = path \<and>
           built d = (if use_wire = PBool True then WireDriver (capitalize driver_name) kw
                      else StandardDriver driver_name kw)"
    by auto
qed

theorem init_local_precedence_witness:
  "init example_env ''chrome'' (Some ''/usr/bin/chromedriver'') None (Some ''http://localhost:4444/wd/hub'')
       (Some [''--headless'']) None PNone None None
     = init example_env ''chrome'' (Some ''/usr/bin/chromedriver'') None None
         (Some [''--headless'']) None PNone None None
   \<and> (\<exists>self d kw. init example_env ''chrome'' (Some ''/usr/bin/chromedriver'') None
          (Some ''http://localhost:4444/wd/hub'') (Some [''--headless'']) None PNone None None = Inr self
         \<and> driver self = Some d \<and> built d = StandardDriver ''chrome'' kw
         \<and> executable_path kw = ''/usr/bin/chromedriver'')"
proof -
  obtain self where i: "init example_env ''chrome'' (Some ''/usr/bin/chromedriver'') None
          (Some ''http://localhost:4444/wd/hub'') (Some [''--headless'']) None PNone None None = Inr self"
    by (simp add: example_eval)
  note t = init_local_precedence [of example_env "''chrome''" "''/usr/bin/chromedriver''" None
        "Some ''http://localhost:4444/wd/hub''" "Some [''--headless'']" None PNone None None None
        "''http://localhost:4444/wd/hub''"]
  from t have eq: "init example_env ''chrome'' (Some ''/usr/bin/chromedriver'') None (Some ''http://localhost:4444/wd/hub'')
       (Some [''--headless'']) None PNone None None
     = init example_env ''chrome'' (Some ''/usr/bin/chromedriver'') None None
         (Some [''--headless'']) None PNone None None"
    by (rule conjunct1)
  from t i have "\<exists>d kw. driver self = Some d \<and> \<not> is_remote (built d) \<and>
      executable_path kw = ''/usr/bin/chromedriver'' \<and>
      built d = (if PNone = PBool True then WireDriver (capitalize ''chrome'') kw
                 else StandardDriver ''chrome'' kw)"
    by blast
  then have "\<exists>d kw. driver self = Some d \<and> built d = StandardDriver ''chrome'' kw
      \<and> executable_path kw = ''/usr/bin/chromedriver''"
    by auto
  with eq i show ?thesis by blast
qed

text \<open>
  Claim C10. In the local branch, when the constructor returns, the driver is the wire
  class exactly when \<^verbatim>\<open>driver_use_wire\<close> is the boolean \<^verbatim>\<open>True\<close>, and the standard class
  for every other value; every other value behaves as \<^verbatim>\<open>None\<close> does. \<open>from_crawler\<close>
  passes \<^verbatim>\<open>None\<close> when the setting \<^verbatim>\<open>SELENIUM_DRIVER_USE_WIRE\<close> is absent, and so builds
  the standard class, although the default of the parameter in the signature is \<^verbatim>\<open>True\<close>.
\<close>

theorem init_wire_identity:
  "(\<forall>self. init e driver_name (Some path) bpath ce args caps use_wire wire_options ua = Inr self \<longrightarrow>
      (\<exists>d kw. driver self = Some d \<and> (is_wire (built d) \<longleftrightarrow> use_wire = PBool True) \<and>
         built d = (if use_wire = PBool True then WireDriver (capitalize driver_name) kw
                    else StandardDriver driver_name kw)))
   \<and> (use_wire \<noteq> PBool True \<longrightarrow>
        init e driver_name (Some path) bpath ce args caps use_wire wire_options ua
          = init e driver_name (Some path) bpath ce args caps PNone wire_options' ua)
   \<and> (\<forall>self crawler'. SELENIUM_DRIVER_USE_WIRE (settings crawler) = PNone \<and>
          SELENIUM_DRIVER_EXECUTABLE_PATH (settings crawler) \<noteq> None \<and>
          from_crawler e crawler = Inr (self, crawler') \<longrightarrow>
          (\<exists>d name kw. driver self = Some d \<and> built d = StandardDriver name kw))
   \<and> driver_use_wire_default = PBool True"
proof (intro conjI allI impI)
  fix self
  assume "init e driver_name (Some path) bpath ce args caps use_wire wire_options ua = Inr self"
  from init_Inr[OF this] obtain opts d where
    "local_driver e driver_name path opts use_wire wire_options = Inr d"
    and self: "self = \<lparr>driver = Some d\<rparr>" by auto
  from local_driver_Inr[OF this(1)] self
  show "\<exists>d kw. driver self = Some d \<and> (is_wire (built d) \<longleftrightarrow> use_wire = PBool True) \<and>
         built d = (if use_wire = PBool True then WireDriver (capitalize driver_name) kw
                    else StandardDriver driver_name kw)" by auto
next
  assume "use_wire \<noteq> PBool True"
  then show "init e driver_name (Some path) bpath ce args caps use_wire wire_options ua
          = init e driver_name (Some path) bpath ce args caps PNone wire_options' ua"
    by (simp add: init_def Let_def local_driver_not_True[of use_wire e _ _ _ wire_options wire_options']
        split: sum.split option.split)
next
  fix self crawler'
  assume a: "SELENIUM_DRIVER_USE_WIRE (settings crawler) = PNone \<and>
          SELENIUM_DRIVER_EXECUTABLE_PATH (settings crawler) \<noteq> None \<and>
          from_crawler e crawler = Inr (self, crawler')"
  then obtain path where path: "SELENIUM_DRIVER_EXECUTABLE_PATH (settings crawler) = Some path" by auto
  from a path obtain name where
    "init e name (Some path) (SELENIUM_BROWSER_EXECUTABLE_PATH (settings crawler))
       (SELENIUM_COMMAND_EXECUTOR (settings crawler)) (SELENIUM_DRIVER_ARGUMENTS (settings crawler))
       (SELENIUM_DRIVER_DESIRED_CAPABILITIES (settings crawler)) PNone
       (SELENIUM_DRIVER_WIRE_OPTIONS (settings crawler)) (SELENIUM_DRIVER_USER_AGENT (settings crawler))
     = Inr self"
    by (auto simp: from_crawler_def Let_def split: option.splits sum.splits)
  from init_Inr[OF this] obtain opts d where
    "local_driver e name path opts PNone (SELENIUM_DRIVER_WIRE_OPTIONS (settings crawler)) = Inr d"
    and self: "self = \<lparr>driver = Some d\<rparr>" by auto
  from local_driver_Inr[OF this(1)] self
  show "\<exists>d name kw. driver self = Some d \<and> built d = StandardDriver name kw" by auto
next
  show "driver_use_wire_default = PBool True" by (simp add: driver_use_wire_default_def)
qed

theorem init_wire_identity_witness:
  "(\<exists>self d kw. init example_env ''chrome'' (Some ''/usr/bin/chromedriver'') None None
        (Some [''--headless'']) None (PBool True) None None = Inr self
      \<and> driver self = Some d \<and> built d = WireDriver ''Chrome'' kw)
   \<and> (\<exists>self d kw. init example_env ''chrome'' (Some ''/usr/bin/chromedriver'') None None
        (Some [''--headless'']) None (PInt 1) None None = Inr self
      \<and> driver self = Some d \<and> built d = StandardDriver ''chrome'' kw)
   \<and> (\<exists>self crawler' d kw. from_crawler example_env example_crawler = Inr (self, crawler')
      \<and> driver self = Some d \<and> built d = StandardDriver ''firefox'' kw)"
proof -
  obtain s1 where i1: "init example_env ''chrome'' (Some ''/usr/bin/chromedriver'') None None
        (Some [''--headless'']) None (PBool True) None None = Inr s1"
    by (simp add: example_eval)
  obtain s2 where i2: "init example_env ''chrome'' (Some ''/usr/bin/chromedriver'') None None
        (Some [''--headless'']) None (PInt 1) None None = Inr s2"
    by (simp add: example_eval)
  obtain s3 c3 where i3: "from_crawler example_env example_crawler = Inr (s3, c3)"
    by (simp add: example_from_crawler)
  have w: "SELENIUM_DRIVER_USE_WIRE (settings example_crawler) = PNone \<and>
          SELENIUM_DRIVER_EXECUTABLE_PATH (settings example_crawler) \<noteq> None \<and>
          from_crawler example_env example_crawler = Inr (s3, c3)"
    using i3 by (simp add: example_crawler_def example_settings_def)
  have n: "s3 = \<lparr>driver = Some \<lparr>built = StandardDriver ''firefox''
              \<lparr>executable_path = ''/usr/bin/geckodriver'', options_keyword = ''firefox_options'',
               driver_options = \<lparr>binary_location = None,
                  arguments = [''-headless'', ''user-agent=new'', ''--window-size=800''],
                  capabilities = []\<rparr>,
               seleniumwire_options = None\<rparr>, calls = []\<rparr>\<rparr>"
    using i3 by (simp add: example_from_crawler)
  have c: "capitalize ''chrome'' = ''Chrome''" by (simp add: example_eval)
  note t1 = init_wire_identity [of example_env "''chrome''" "''/usr/bin/chromedriver''" None None
        "Some [''--headless'']" None "PBool True" None None None example_crawler]
  from t1 i1 have "\<exists>d kw. driver s1 = Some d \<and> (is_wire (built d) \<longleftrightarrow> PBool True = PBool True) \<and>
         built d = (if PBool True = PBool True then WireDriver (capitalize ''chrome'') kw
                    else StandardDriver ''chrome'' kw)"
    by blast
  then have "\<exists>d kw. driver s1 = Some d \<and> built d = WireDriver ''Chrome'' kw"
    using c by auto
  with i1 have 1: "\<exists>self d kw. init example_env ''chrome'' (Some ''/usr/bin/chromedriver'') None None
        (Some [''--headless'']) None (PBool True) None None = Inr self
      \<and> driver self = Some d \<and> built d = WireDriver ''Chrome'' kw"
    by blast
  note t2 = init_wire_identity [of example_env "''chrome''" "''/usr/bin/chromedriver''" None None
        "Some [''--headless'']" None "PInt 1" None None None example_crawler]
  from t2 i2 have "\<exists>d kw. driver s2 = Some d \<and> (is_wire (built d) \<longleftrightarrow> PInt 1 = PBool True) \<and>
         built d = (if PInt 1 = PBool True then WireDriver (capitalize ''chrome'') kw
                    else StandardDriver ''chrome'' kw)"
    by blast
  then have "\<exists>d kw. driver s2 = Some d \<and> built d = StandardDriver ''chrome'' kw"
    by auto
  with i2 have 2: "\<exists>self d kw. init example_env ''chrome'' (Some ''/usr/bin/chromedriver'') None None
        (Some [''--headless'']) None (PInt 1) None None = Inr self
      \<and> driver self = Some d \<and> built d = StandardDriver ''chrome'' kw"
    by blast
  from t2 w have "\<exists>d name kw. driver s3 = Some d \<and> built d = StandardDriver name kw"
    by blast
  then have "\<exists>d kw. driver s3 = Some d \<and> built d = StandardDriver ''firefox'' kw"
    using n by auto
  with i3 have 3: "\<exists>self crawler' d kw. from_crawler example_env example_crawler = Inr (self, crawler')
      \<and> driver self = Some d \<and> built d = StandardDriver ''firefox'' kw"
    by blast
  from 1 2 3 show ?thesis by blast
qed

text \<open>
  Claim C7. The loop of the constructor appends the configured arguments to the options in
  list order; an argument whose lowercased form starts with \<^verbatim>\<open>user-agent\<close> is replaced
  by \<^verbatim>\<open>driver_user_agent\<close> when that is set (a non-empty string, as the test \<^verbatim>\<open>if
  driver_user_agent:\<close> takes it), every other argument is appended as it is, and so is
  every argument when no user agent is set. This is what the loop does when the options
  object of the driver family accepts each of these arguments: the loop then returns the
  options with exactly these arguments appended. Whenever the loop returns at all, the
  arguments are these; and when the constructor returns a driver, the arguments of its
  options are exactly these.
\<close>

theorem init_appends_arguments:
  "((\<forall>a \<in> set args. options_raises e driver_name (AddArgument (substituted ua a)) = None) \<longrightarrow>
      add_arguments e driver_name ua args opts
        = Inr (opts\<lparr>arguments := arguments opts @ map (substituted ua) args\<rparr>))
   \<and> (\<forall>opts'. add_arguments e driver_name ua args opts = Inr opts' \<longrightarrow>
         arguments opts' = arguments opts @ map (substituted ua) args)
   \<and> (\<forall>self d. init e driver_name path bpath ce (Some args) caps use_wire wire_options ua = Inr self \<and>
         driver self = Some d \<longrightarrow> arguments (options_of (built d)) = map (substituted ua) args)"
proof (intro conjI allI impI)
  assume "\<forall>a \<in> set args. options_raises e driver_name (AddArgument (substituted ua a)) = None"
  then show "add_arguments e driver_name ua args opts
        = Inr (opts\<lparr>arguments := arguments opts @ map (substituted ua) args\<rparr>)"
    by (rule add_arguments_accepted)
next
  fix opts'
  assume "add_arguments e driver_name ua args opts = Inr opts'"
  then show "arguments opts' = arguments opts @ map (substituted ua) args"
    by (rule arguments_add_arguments)
next
  fix self d
  assume "init e driver_name path bpath ce (Some args) caps use_wire wire_options ua = Inr self \<and>
         driver self = Some d"
  then have i: "init e driver_name path bpath ce (Some args) caps use_wire wire_options ua = Inr self"
    and d: "driver self = Some d" by simp_all
  from init_Inr[OF i] obtain o1 where c: "configured_options e driver_name bpath args caps ua = Inr o1"
    and b: "case path of
              Some p \<Rightarrow> \<exists>d. local_driver e driver_name p o1 use_wire wire_options = Inr d
                            \<and> self = \<lparr>driver = Some d\<rparr>
            | None \<Rightarrow>
               (case ce of
                  Some c \<Rightarrow> \<exists>d. remote_driver e c o1 = Inr d \<and> self = \<lparr>driver = Some d\<rparr>
                | None \<Rightarrow> self = \<lparr>driver = None\<rparr>)"
    by auto
  from b d have "options_of (built d) = o1"
    by (auto simp: options_of_def split: option.splits dest: local_driver_Inr dest!: remote_driver_Inr)
  with c show "arguments (options_of (built d)) = map (substituted ua) args"
    by (simp add: arguments_configured_options)
qed

theorem init_appends_arguments_witness:
  "add_arguments example_env ''firefox'' (Some ''user-agent=new'')
       [''-headless'', ''User-Agent=old'', ''--window-size=800''] example_options
     = Inr (example_options\<lparr>arguments := [''-headless'', ''user-agent=new'', ''--window-size=800'']\<rparr>)
   \<and> (\<exists>self d. init example_env ''firefox'' (Some ''/usr/bin/geckodriver'') None None
         (Some [''-headless'', ''User-Agent=old'', ''--window-size=800'']) None PNone None
         (Some ''user-agent=new'') = Inr self
       \<and> driver self = Some d
       \<and> arguments (options_of (built d)) = [''-headless'', ''user-agent=new'', ''--window-size=800''])"
proof -
  let ?args = "[''-headless'', ''User-Agent=old'', ''--window-size=800'']"
  have m: "map (substituted (Some ''user-agent=new'')) ?args
             = [''-headless'', ''user-agent=new'', ''--window-size=800'']"
    by (simp add: substituted_def example_eval)
  have ok: "\<forall>a \<in> set ?args.
      options_raises example_env ''firefox'' (AddArgument (substituted (Some ''user-agent=new'') a)) = None"
    by (simp add: substituted_def example_eval)
  obtain self d where i: "init example_env ''firefox'' (Some ''/usr/bin/geckodriver'') None None
       (Some ?args) None PNone None (Some ''user-agent=new'') = Inr self \<and> driver self = Some d"
    by (simp add: example_eval)
  note t = init_appends_arguments [of ?args example_env "''firefox''" "Some ''user-agent=new''"
        example_options "Some ''/usr/bin/geckodriver''" None None None PNone None]
  from t ok have 1: "add_arguments example_env ''firefox'' (Some ''user-agent=new'') ?args example_options
     = Inr (example_options\<lparr>arguments := arguments example_options
              @ map (substituted (Some ''user-agent=new'')) ?args\<rparr>)"
    by blast
  from t i have 2: "arguments (options_of (built d)) = map (substituted (Some ''user-agent=new'')) ?args"
    by blast
  have e: "arguments example_options = []" by (simp add: example_options_def)
  from 1 2 i show ?thesis unfolding m e by auto
qed

end
